theory Spec2Isabelle
  imports Complex_Main "HOL-Library.Multiset"
begin

section \<open>Huggies widget server: values, strings and envelopes\<close>

text \<open>
  The development follows \<^verbatim>\<open>huggies_server_python/main.py\<close>. Python values that
  travel in arguments, structured content and metadata are JSON-like values. A dict is an
  association list in insertion order. A Python \<^verbatim>\<open>str\<close> is a \<^typ>\<open>string\<close> holding
  its text in UTF-8, so that equality, emptiness, \<^verbatim>\<open>in\<close> and the split at an ASCII
  separator are those of the bytes. The methods that depend on the Unicode tables
  (\<^verbatim>\<open>lower\<close>, \<^verbatim>\<open>strip\<close>, \<^verbatim>\<open>split\<close> at whitespace, the iteration over the
  characters) are parameters, as are the conversions and the operations on floats (see
  \<open>builtins\<close>). A finite \<^verbatim>\<open>float\<close> is the real number it denotes, so comparisons
  against integer literals are exact.
\<close>

datatype pyval =
    PNone
  | PBool bool
  | PInt int
  | PFloat real
  | PStr string
  | PList "pyval list"
  | PDict "(string \<times> pyval) list"

text \<open>An instance of Python's \<^verbatim>\<open>Exception\<close>, carrying \<^verbatim>\<open>str(e)\<close>.\<close>

datatype exn = Exception string

subsection \<open>String builtins\<close>

text \<open>\<^verbatim>\<open>s.split(sep)\<close> for a one-character separator: never the empty list.\<close>

fun py_split :: "char \<Rightarrow> string \<Rightarrow> string list" where
  "py_split sep [] = [[]]"
| "py_split sep (c # cs) =
     (if c = sep then [] # py_split sep cs
      else (case py_split sep cs of
              [] \<Rightarrow> [[c]]
            | w # ws \<Rightarrow> (c # w) # ws))"

text \<open>\<^verbatim>\<open>xs[-1]\<close>: raises \<^verbatim>\<open>IndexError\<close> on the empty list.\<close>

definition py_last :: "'a list \<Rightarrow> exn + 'a" where
  "py_last xs = (if xs = [] then Inl (Exception ''list index out of range'') else Inr (last xs))"

text \<open>\<^verbatim>\<open>sub in s\<close> on strings: \<open>sub\<close> occurs in \<open>s\<close> as a contiguous block.\<close>

fun starts_with :: "string \<Rightarrow> string \<Rightarrow> bool" where
  "starts_with [] s = True"
| "starts_with (a # as) [] = False"
| "starts_with (a # as) (c # cs) = (a = c \<and> starts_with as cs)"

fun py_in :: "string \<Rightarrow> string \<Rightarrow> bool" where
  "py_in sub [] = (sub = [])"
| "py_in sub (c # cs) = (starts_with sub (c # cs) \<or> py_in sub cs)"

subsection \<open>Builtins taken as parameters\<close>

text \<open>
  The string methods, conversions and float operations of the interpreter are not program
  text. They are the fields of one record that every function using them receives:
  \<^verbatim>\<open>s.lower()\<close>, \<^verbatim>\<open>s.strip()\<close>, \<^verbatim>\<open>s.split()\<close>, the characters of \<open>s\<close> as
  one-character strings, \<^verbatim>\<open>int(s)\<close> (\<open>None\<close> for \<^verbatim>\<open>ValueError\<close>),
  \<^verbatim>\<open>float(i)\<close> of a large integer, \<^verbatim>\<open>float(s)\<close> of a string, the float product, the
  value of a float literal given as a decimal, \<^verbatim>\<open>round(x, n)\<close>, and \<^verbatim>\<open>str\<close> of a
  value that is neither a string, \<^verbatim>\<open>None\<close> nor a boolean.
\<close>

record builtins =
  str_lower :: "string \<Rightarrow> string"
  str_strip :: "string \<Rightarrow> string"
  str_split :: "string \<Rightarrow> string list"
  str_chars :: "string \<Rightarrow> string list"
  int_of_str :: "string \<Rightarrow> int option"
  float_of_int :: "int \<Rightarrow> exn + real"
  float_of_str :: "string \<Rightarrow> exn + real"
  fmul :: "real \<Rightarrow> real \<Rightarrow> real"
  flit :: "real \<Rightarrow> real"
  fround :: "real \<Rightarrow> nat \<Rightarrow> real"
  str_of :: "pyval \<Rightarrow> string"

text \<open>The name of the class of a value, and the text of the errors that quote it.\<close>

definition type_name :: "pyval \<Rightarrow> string" where
  "type_name v =
     (case v of
        PNone \<Rightarrow> ''NoneType''
      | PBool b \<Rightarrow> ''bool''
      | PInt i \<Rightarrow> ''int''
      | PFloat x \<Rightarrow> ''float''
      | PStr s \<Rightarrow> ''str''
      | PList xs \<Rightarrow> ''list''
      | PDict kvs \<Rightarrow> ''dict'')"

definition quoted :: "string \<Rightarrow> string" where
  "quoted s = [CHR 0x27] @ s @ [CHR 0x27]"

definition no_attribute :: "pyval \<Rightarrow> string \<Rightarrow> exn" where
  "no_attribute v attr =
     Exception (quoted (type_name v) @ '' object has no attribute '' @ quoted attr)"

text \<open>Truth value of a Python object in a condition.\<close>

definition py_truthy :: "pyval \<Rightarrow> bool" where
  "py_truthy v =
     (case v of
        PNone \<Rightarrow> False
      | PBool b \<Rightarrow> b
      | PInt i \<Rightarrow> i \<noteq> 0
      | PFloat x \<Rightarrow> x \<noteq> 0
      | PStr s \<Rightarrow> s \<noteq> []
      | PList xs \<Rightarrow> xs \<noteq> []
      | PDict kvs \<Rightarrow> kvs \<noteq> [])"

text \<open>\<^verbatim>\<open>str(v)\<close>, as an f-string field formats it.\<close>

definition py_str :: "builtins \<Rightarrow> pyval \<Rightarrow> string" where
  "py_str py v =
     (case v of
        PStr s \<Rightarrow> s
      | PNone \<Rightarrow> ''None''
      | PBool b \<Rightarrow> (if b then ''True'' else ''False'')
      | _ \<Rightarrow> str_of py v)"

text \<open>
  \<^verbatim>\<open>float(v)\<close>. A float is returned as it is, a boolean is 0.0 or 1.0, an integer of
  magnitude at most \<open>2 ^ 53\<close> is exact; lists, dicts and \<^verbatim>\<open>None\<close> raise
  \<^verbatim>\<open>TypeError\<close>.
\<close>

definition py_float :: "builtins \<Rightarrow> pyval \<Rightarrow> exn + real" where
  "py_float py v =
     (case v of
        PFloat x \<Rightarrow> Inr x
      | PBool b \<Rightarrow> Inr (if b then 1 else 0)
      | PInt i \<Rightarrow> (if \<bar>i\<bar> \<le> 2 ^ 53 then Inr (of_int i) else float_of_int py i)
      | PStr s \<Rightarrow> float_of_str py s
      | _ \<Rightarrow> Inl (Exception (''float() argument must be a string or a real number, not '' @
                           quoted (type_name v))))"

text \<open>\<^verbatim>\<open>d.get(k)\<close> and \<^verbatim>\<open>d.get(k, default)\<close> on a dict.\<close>

definition dict_get :: "(string \<times> pyval) list \<Rightarrow> string \<Rightarrow> pyval" where
  "dict_get d k = (case map_of d k of None \<Rightarrow> PNone | Some v \<Rightarrow> v)"

definition dict_get_default :: "(string \<times> pyval) list \<Rightarrow> string \<Rightarrow> pyval \<Rightarrow> pyval" where
  "dict_get_default d k dflt = (case map_of d k of None \<Rightarrow> dflt | Some v \<Rightarrow> v)"

text \<open>\<^verbatim>\<open>v.lower()\<close>: only a string has the method.\<close>

definition method_lower :: "builtins \<Rightarrow> pyval \<Rightarrow> exn + string" where
  "method_lower py v =
     (case v of
        PStr s \<Rightarrow> Inr (str_lower py s)
      | _ \<Rightarrow> Inl (no_attribute v ''lower''))"

text \<open>
  \<^verbatim>\<open>for x in v\<close>: a list yields its elements, a string its characters, a dict its keys;
  the other values are not iterable.
\<close>

definition py_iter :: "builtins \<Rightarrow> pyval \<Rightarrow> exn + pyval list" where
  "py_iter py v =
     (case v of
        PList xs \<Rightarrow> Inr xs
      | PStr s \<Rightarrow> Inr (map PStr (str_chars py s))
      | PDict kvs \<Rightarrow> Inr (map (\<lambda>kv. PStr (fst kv)) kvs)
      | _ \<Rightarrow> Inl (Exception (quoted (type_name v) @ '' object is not iterable'')))"

text \<open>\<^verbatim>\<open>xs[:n]\<close>: a negative bound counts from the end.\<close>

definition slice_to :: "'a list \<Rightarrow> int \<Rightarrow> 'a list" where
  "slice_to xs n = (if 0 \<le> n then take (nat n) xs else take (length xs - nat (- n)) xs)"

subsection \<open>Builtins to evaluate with\<close>

text \<open>
  A set of builtins on which the handlers are evaluated at concrete requests:
  the string methods as they act on ASCII text, \<^verbatim>\<open>int(s)\<close> on plain ASCII decimal text
  (surrounding whitespace, one optional sign, digits), and float operations that compute
  without rounding. The theorems do not depend on them.
\<close>

definition ascii_isspace :: "char \<Rightarrow> bool" where
  "ascii_isspace c = (of_char c \<in> {9, 10, 11, 12, 13, 28, 29, 30, 31, 32 :: nat})"

definition ascii_strip :: "string \<Rightarrow> string" where
  "ascii_strip s = rev (dropWhile ascii_isspace (rev (dropWhile ascii_isspace s)))"

fun ascii_split_acc :: "string \<Rightarrow> string \<Rightarrow> string list" where
  "ascii_split_acc cur [] = (if cur = [] then [] else [rev cur])"
| "ascii_split_acc cur (c # cs) =
     (if ascii_isspace c
      then (if cur = [] then ascii_split_acc [] cs else rev cur # ascii_split_acc [] cs)
      else ascii_split_acc (c # cur) cs)"

definition ascii_split :: "string \<Rightarrow> string list" where
  "ascii_split s = ascii_split_acc [] s"

definition ascii_lower_char :: "char \<Rightarrow> char" where
  "ascii_lower_char c =
     (let n = (of_char c :: nat) in if 65 \<le> n \<and> n \<le> 90 then char_of (n + 32) else c)"

definition ascii_lower :: "string \<Rightarrow> string" where
  "ascii_lower s = map ascii_lower_char s"


definition is_digit :: "char \<Rightarrow> bool" where
  "is_digit c = (48 \<le> (of_char c :: nat) \<and> (of_char c :: nat) \<le> 57)"

definition digits_value :: "string \<Rightarrow> int" where
  "digits_value ds = foldl (\<lambda>acc c. 10 * acc + (int (of_char c) - 48)) 0 ds"

definition int_ascii :: "string \<Rightarrow> int option" where
  "int_ascii s =
     (let t = ascii_strip s;
          neg = (t \<noteq> [] \<and> hd t = CHR ''-'');
          ds = (if t \<noteq> [] \<and> (hd t = CHR ''-'' \<or> hd t = CHR ''+'') then tl t else t)
      in if ds \<noteq> [] \<and> list_all is_digit ds
         then Some (if neg then - digits_value ds else digits_value ds)
         else None)"

definition exact_builtins :: builtins where
  "exact_builtins =
     \<lparr> str_lower = ascii_lower,
       str_strip = ascii_strip,
       str_split = ascii_split,
       str_chars = map (\<lambda>c. [c]),
       int_of_str = int_ascii,
       float_of_int = (\<lambda>i. Inr (of_int i)),
       float_of_str = (\<lambda>s. case int_ascii s of
                              None \<Rightarrow> Inl (Exception ''could not convert string to float'')
                            | Some i \<Rightarrow> Inr (of_int i)),
       fmul = (\<lambda>x y. x * y),
       flit = (\<lambda>x. x),
       fround = (\<lambda>x n. of_int (round (x * 10 ^ n)) / 10 ^ n),
       str_of = (\<lambda>v. ''?'') \<rparr>"

subsection \<open>Widgets\<close>

record HuggiesWidget =
  widget_identifier :: string
  title :: string
  template_uri :: string
  invoking :: string
  invoked :: string
  html :: string
  response_text :: string

text \<open>
  The catalog. The markup of each widget is read from the assets directory at start-up by
  \<^verbatim>\<open>_load_widget_html\<close>; the assets are not part of the program text, so the loaded
  markup is the parameter \<open>load\<close> (component name to markup).
\<close>

definition widgets :: "(string \<Rightarrow> string) \<Rightarrow> HuggiesWidget list" where
  "widgets load =
    [ \<lparr> widget_identifier = ''huggies-cards'', title = ''Show FAQ Cards'',
        template_uri = ''ui://widget/huggies-cards.html'',
        invoking = ''Searching FAQs'', invoked = ''Found FAQ results'',
        html = load ''huggies-cards'', response_text = ''Displayed FAQ cards!'' \<rparr>,
      \<lparr> widget_identifier = ''huggies-size-calc'', title = ''Diaper Size Calculator'',
        template_uri = ''ui://widget/huggies-size-calc.html'',
        invoking = ''Calculating diaper size'', invoked = ''Size recommendation ready'',
        html = load ''huggies-size-calc'', response_text = ''Calculated diaper size!'' \<rparr>,
      \<lparr> widget_identifier = ''huggies-map'', title = ''Store Locator Map'',
        template_uri = ''ui://widget/huggies-map.html'',
        invoking = ''Finding nearby stores'', invoked = ''Store locations found'',
        html = load ''huggies-map'', response_text = ''Displayed store map!'' \<rparr>,
      \<lparr> widget_identifier = ''huggies-offers'', title = ''Coupons & Offers'',
        template_uri = ''ui://widget/huggies-offers.html'',
        invoking = ''Loading current offers'', invoked = ''Offers displayed'',
        html = load ''huggies-offers'', response_text = ''Showed available offers!'' \<rparr>,
      \<lparr> widget_identifier = ''huggies-names'', title = ''Baby Name Suggestions'',
        template_uri = ''ui://widget/huggies-names.html'',
        invoking = ''Generating name suggestions'', invoked = ''Name suggestions ready'',
        html = load ''huggies-names'', response_text = ''Displayed name suggestions!'' \<rparr>,
      \<lparr> widget_identifier = ''huggies-gender'', title = ''Gender Predictor'',
        template_uri = ''ui://widget/huggies-gender.html'',
        invoking = ''Predicting gender'', invoked = ''Prediction complete'',
        html = load ''huggies-gender'', response_text = ''Showed gender prediction!'' \<rparr> ]"

definition MIME_TYPE :: string where
  "MIME_TYPE = ''text/html+skybridge''"

text \<open>
  A dict comprehension keeps the last value written for a key, so the index reads the
  reversed list.
\<close>

definition WIDGETS_BY_ID :: "(string \<Rightarrow> string) \<Rightarrow> string \<Rightarrow> HuggiesWidget option" where
  "WIDGETS_BY_ID load = map_of (rev (map (\<lambda>w. (widget_identifier w, w)) (widgets load)))"

definition WIDGETS_BY_URI :: "(string \<Rightarrow> string) \<Rightarrow> string \<Rightarrow> HuggiesWidget option" where
  "WIDGETS_BY_URI load = map_of (rev (map (\<lambda>w. (template_uri w, w)) (widgets load)))"

type_synonym meta = "(string \<times> pyval) list"

definition tool_meta :: "HuggiesWidget \<Rightarrow> meta" where
  "tool_meta widget =
    [ (''openai/outputTemplate'', PStr (template_uri widget)),
      (''openai/toolInvocation/invoking'', PStr (invoking widget)),
      (''openai/toolInvocation/invoked'', PStr (invoked widget)),
      (''openai/widgetAccessible'', PBool True),
      (''openai/resultCanProduceWidget'', PBool True) ]"

definition tool_invocation_meta :: "HuggiesWidget \<Rightarrow> meta" where
  "tool_invocation_meta widget =
    [ (''openai/toolInvocation/invoking'', PStr (invoking widget)),
      (''openai/toolInvocation/invoked'', PStr (invoked widget)) ]"

subsection \<open>Protocol results\<close>

record TextContent =
  tc_type :: string
  tc_text :: string

text \<open>
  The fields of the library's \<^verbatim>\<open>CallToolResult\<close>, which are what a response carries.
  \<^verbatim>\<open>isError\<close> defaults to \<^verbatim>\<open>False\<close>. The metadata field is named \<^verbatim>\<open>meta\<close>;
  \<^verbatim>\<open>_meta\<close> is its alias, the keyword that sets it in the constructor and its key in
  the response. It defaults to \<^verbatim>\<open>None\<close>.
\<close>

record CallToolResult =
  content :: "TextContent list"
  structuredContent :: "pyval option"
  isError :: bool
  result_meta :: "meta option"

definition text_content :: "string \<Rightarrow> TextContent" where
  "text_content t = \<lparr> tc_type = ''text'', tc_text = t \<rparr>"

record TextResourceContents =
  trc_uri :: string
  trc_mimeType :: string
  trc_text :: string
  trc_meta :: "meta option"

record ReadResourceResult =
  contents :: "TextResourceContents list"
  rr_meta :: "meta option"

datatype ServerResult =
    CallToolServerResult CallToolResult
  | ReadResourceServerResult ReadResourceResult

section \<open>Knowledge store and keyword search\<close>

text \<open>
  \<^verbatim>\<open>KNOWLEDGE\<close> is the list of dicts read from the knowledge file at start-up; the file
  is data, so the list is the parameter \<open>K\<close>.
\<close>

type_synonym item = "(string \<times> pyval) list"

text \<open>The loop over the tags: 3 for each tag whose lowercase form occurs in \<open>q\<close>.\<close>

fun tags_loop :: "builtins \<Rightarrow> string \<Rightarrow> int \<Rightarrow> pyval list \<Rightarrow> exn + int" where
  "tags_loop py q score [] = Inr score"
| "tags_loop py q score (tag # tags) =
     (case method_lower py tag of
        Inl e \<Rightarrow> Inl e
      | Inr t \<Rightarrow> tags_loop py q (if py_in t q then score + 3 else score) tags)"

text \<open>The loop over the words of \<open>q\<close>: 1 for each non-empty word that occurs in the answer.\<close>

fun words_loop :: "string \<Rightarrow> int \<Rightarrow> string list \<Rightarrow> int" where
  "words_loop ans score [] = score"
| "words_loop ans score (w # ws) =
     words_loop ans (if w \<noteq> [] \<and> py_in w ans then score + 1 else score) ws"

text \<open>The body of the loop over the records: the score of one record.\<close>

definition item_score :: "builtins \<Rightarrow> string \<Rightarrow> item \<Rightarrow> exn + int" where
  "item_score py q item =
     (case method_lower py (dict_get_default item ''title'' (PStr [])) of
        Inl e \<Rightarrow> Inl e
      | Inr title_l \<Rightarrow>
     (case method_lower py (dict_get_default item ''question'' (PStr [])) of
        Inl e \<Rightarrow> Inl e
      | Inr question_l \<Rightarrow>
     (case py_iter py (dict_get_default item ''tags'' (PList [])) of
        Inl e \<Rightarrow> Inl e
      | Inr tags \<Rightarrow>
     (case tags_loop py q ((if py_in q title_l then 5 else 0) + (if py_in q question_l then 4 else 0)) tags of
        Inl e \<Rightarrow> Inl e
      | Inr score \<Rightarrow>
     (case method_lower py (dict_get_default item ''answer'' (PStr [])) of
        Inl e \<Rightarrow> Inl e
      | Inr ans \<Rightarrow> Inr (words_loop ans score (str_split py q)))))))"

fun items_loop ::
  "builtins \<Rightarrow> string \<Rightarrow> (int \<times> item) list \<Rightarrow> item list \<Rightarrow> exn + (int \<times> item) list" where
  "items_loop py q hits [] = Inr hits"
| "items_loop py q hits (item # items) =
     (case item_score py q item of
        Inl e \<Rightarrow> Inl e
      | Inr score \<Rightarrow> items_loop py q (if 0 < score then hits @ [(score, item)] else hits) items)"

text \<open>
  \<^verbatim>\<open>hits.sort(key=lambda x: x[0], reverse=True)\<close>: the sort is stable also when
  reversed, so it is the stable sort on the negated score.
\<close>

definition sort_hits :: "(int \<times> item) list \<Rightarrow> (int \<times> item) list" where
  "sort_hits hits = sort_key (\<lambda>h. - fst h) hits"

definition keyword_search :: "builtins \<Rightarrow> item list \<Rightarrow> string \<Rightarrow> int \<Rightarrow> exn + item list" where
  "keyword_search py K query top_n =
     (let q = str_lower py query in
      case items_loop py q [] K of
        Inl e \<Rightarrow> Inl e
      | Inr hits \<Rightarrow> Inr (slice_to (map snd (sort_hits hits)) top_n))"

section \<open>FAQ lookup\<close>

definition faq_result :: "item \<Rightarrow> pyval" where
  "faq_result m =
     PDict [ (''id'', dict_get m ''id''),
             (''title'', dict_get m ''title''),
             (''answer'', dict_get m ''answer''),
             (''source_url'', dict_get m ''source_url''),
             (''type'', dict_get m ''type''),
             (''tags'', dict_get_default m ''tags'' (PList [])) ]"

definition faq_card :: "item \<Rightarrow> pyval" where
  "faq_card m =
     PDict [ (''type'', PStr ''card''),
             (''title'', dict_get m ''title''),
             (''text'', dict_get m ''answer''),
             (''meta'', PDict [ (''id'', dict_get m ''id''),
                                (''source_url'', dict_get m ''source_url'') ]) ]"

definition faq_envelope :: "HuggiesWidget \<Rightarrow> string \<Rightarrow> pyval list \<Rightarrow> pyval list \<Rightarrow> CallToolResult" where
  "faq_envelope widget text results cards =
     \<lparr> content = [text_content text],
       structuredContent = Some (PDict
         [ (''text'', PStr text),
           (''results'', PList results),
           (''widget'', PDict [ (''widget_type'', PStr ''cards''), (''cards'', PList cards) ]) ]),
       isError = False,
       result_meta = Some (tool_invocation_meta widget) \<rparr>"

text \<open>
  \<^verbatim>\<open>get_faq(query)\<close>. A missing widget is \<^verbatim>\<open>KeyError\<close>; \<^verbatim>\<open>(query or "").strip()\<close>
  raises \<^verbatim>\<open>AttributeError\<close> on a true value that is not a string; an exception of the
  search is caught and leaves no matches.
\<close>

definition get_faq :: "(string \<Rightarrow> string) \<Rightarrow> builtins \<Rightarrow> item list \<Rightarrow> pyval \<Rightarrow> exn + CallToolResult" where
  "get_faq load py K query =
     (case WIDGETS_BY_ID load ''huggies-cards'' of
        None \<Rightarrow> Inl (Exception (quoted ''huggies-cards''))
      | Some widget \<Rightarrow>
          (case (if py_truthy query then query else PStr []) of
             PStr s \<Rightarrow>
               (let q = str_strip py s in
                if q = [] then Inr (faq_envelope widget ''Query is required'' [] [])
                else
                  (let found = (case keyword_search py K q 3 of Inl e \<Rightarrow> [] | Inr ms \<Rightarrow> ms);
                       matches = (if found = [] then slice_to K 3 else found);
                       text = (if matches \<noteq> []
                               then py_str py (dict_get (hd matches) ''title'') @ '': '' @
                                    py_str py (dict_get (hd matches) ''answer'')
                               else ''No matching FAQ found for '' @ [CHR 0x22] @ q @ [CHR 0x22] @ ''.'')
                   in Inr (faq_envelope widget text (map faq_result matches) (map faq_card matches))))
           | v \<Rightarrow> Inl (no_attribute v ''strip'')))"

section \<open>Size calculator\<close>

definition en_dash :: string where
  "en_dash = [CHR 0xE2, CHR 0x80, CHR 0x93]"

text \<open>The chain of \<^verbatim>\<open>if\<close>/\<^verbatim>\<open>elif\<close> branches: size and range description.\<close>

definition size_band :: "real \<Rightarrow> string \<times> string" where
  "size_band w =
     (if w \<le> 10 then (''N (Newborn)'', ''up to 10 lbs'')
      else if 8 \<le> w \<and> w \<le> 14 then (''1'', ''8'' @ en_dash @ ''14 lbs'')
      else if 12 \<le> w \<and> w \<le> 18 then (''2'', ''12'' @ en_dash @ ''18 lbs'')
      else if 16 \<le> w \<and> w \<le> 28 then (''3'', ''16'' @ en_dash @ ''28 lbs'')
      else if 22 \<le> w \<and> w \<le> 37 then (''4'', ''22'' @ en_dash @ ''37 lbs'')
      else if 27 \<le> w \<and> w \<le> 40 then (''5'', ''27+ lbs (varies by product)'')
      else (''6'', ''35+ lbs''))"

definition advice :: string where
  "advice = ''If you see red marks around the legs, frequent leaks, or difficulty '' @
            ''closing tabs, consider sizing up.''"

definition size_backend :: "builtins \<Rightarrow> real \<Rightarrow> (string \<times> pyval) list" where
  "size_backend py w =
     [ (''weight_lb'', PFloat (fround py w 2)),
       (''recommended_size'', PStr (fst (size_band w))),
       (''weight_range_description'', PStr (snd (size_band w))),
       (''advice'', PStr advice) ]"

definition size_text :: "builtins \<Rightarrow> real \<Rightarrow> string" where
  "size_text py w =
     ''For approx '' @ py_str py (PFloat (fround py w 2)) @ '' lbs, recommended size: '' @
     fst (size_band w) @ '' ('' @ snd (size_band w) @ ''). '' @ advice"

text \<open>The pound weight: \<^verbatim>\<open>weight_lb\<close> if given, else the kilograms times the factor.\<close>

definition pounds :: "builtins \<Rightarrow> pyval \<Rightarrow> pyval \<Rightarrow> exn + real" where
  "pounds py weight_kg weight_lb =
     (case (if weight_lb = PNone \<and> weight_kg \<noteq> PNone
            then (case py_float py weight_kg of
                    Inl e \<Rightarrow> Inl e
                  | Inr kg \<Rightarrow> Inr (PFloat (fmul py kg (flit py (22046226218 / 10000000000)))))
            else Inr weight_lb) of
        Inl e \<Rightarrow> Inl e
      | Inr lb \<Rightarrow> py_float py lb)"

definition diaper_size_calc ::
  "(string \<Rightarrow> string) \<Rightarrow> builtins \<Rightarrow> pyval \<Rightarrow> pyval \<Rightarrow> exn + CallToolResult" where
  "diaper_size_calc load py weight_kg weight_lb =
     (case WIDGETS_BY_ID load ''huggies-size-calc'' of
        None \<Rightarrow> Inl (Exception (quoted ''huggies-size-calc''))
      | Some widget \<Rightarrow>
          if weight_kg = PNone \<and> weight_lb = PNone
          then (let text = ''Please provide weight_kg or weight_lb.'' in
                Inr \<lparr> content = [text_content text],
                      structuredContent = Some (PDict [ (''text'', PStr text), (''error'', PStr text) ]),
                      isError = True,
                      result_meta = Some (tool_invocation_meta widget) \<rparr>)
          else (case pounds py weight_kg weight_lb of
                  Inl e \<Rightarrow> Inl e
                | Inr w \<Rightarrow>
                    Inr \<lparr> content = [text_content (size_text py w)],
                          structuredContent = Some (PDict
                            [ (''text'', PStr (size_text py w)),
                              (''backend'', PDict (size_backend py w)),
                              (''widget'', PDict [ (''widget_type'', PStr ''info_card''),
                                                   (''data'', PDict (size_backend py w)) ]) ]),
                          isError = False,
                          result_meta = Some (tool_invocation_meta widget) \<rparr>))"

section \<open>Gender prediction\<close>

text \<open>
  The body of the \<^verbatim>\<open>try\<close> block: the split (a method of strings only), the last
  part, and \<^verbatim>\<open>int\<close>.
\<close>

definition parse_day :: "builtins \<Rightarrow> pyval \<Rightarrow> exn + int" where
  "parse_day py due_date =
     (case due_date of
        PStr s \<Rightarrow>
          (case py_last (py_split CHR ''-'' s) of
             Inl e \<Rightarrow> Inl e
           | Inr part \<Rightarrow>
               (case int_of_str py part of
                  None \<Rightarrow> Inl (Exception (''invalid literal for int() with base 10: '' @
                                          quoted part))
                | Some day \<Rightarrow> Inr day))
      | v \<Rightarrow> Inl (no_attribute v ''split''))"

definition gender_prediction :: "builtins \<Rightarrow> pyval \<Rightarrow> string" where
  "gender_prediction py due_date =
     (if py_truthy due_date
      then (case parse_day py due_date of
              Inr day \<Rightarrow> (if day mod 2 = 1 then ''boy'' else ''girl'')
            | Inl e \<Rightarrow> ''unknown'')
      else ''unknown'')"

definition gender_text :: "string \<Rightarrow> string" where
  "gender_text prediction = ''Playful prediction: '' @ prediction @ '' (not medical).''"

definition predict_gender ::
  "(string \<Rightarrow> string) \<Rightarrow> builtins \<Rightarrow> pyval \<Rightarrow> pyval \<Rightarrow> exn + CallToolResult" where
  "predict_gender load py due_date conception_date =
     (case WIDGETS_BY_ID load ''huggies-gender'' of
        None \<Rightarrow> Inl (Exception (quoted ''huggies-gender''))
      | Some widget \<Rightarrow>
          (let prediction = gender_prediction py due_date;
               text = gender_text prediction;
               backend = PDict
                 [ (''prediction'', PStr prediction),
                   (''due_date'', due_date),
                   (''conception_date'', conception_date) ]
           in Inr \<lparr> content = [text_content text],
                    structuredContent = Some (PDict
                      [ (''text'', PStr text),
                        (''backend'', backend),
                        (''widget'', PDict
                           [ (''widget_type'', PStr ''gender_predictor''),
                             (''prediction'', PStr prediction) ]) ]),
                    isError = False,
                    result_meta = Some (tool_invocation_meta widget) \<rparr>))"

section \<open>Tool registry and schemas\<close>

text \<open>
  What the server reads of a parameter of a handler's signature: its name, the string of
  its annotation if it has one (the module postpones the evaluation of annotations, so the
  annotation is the text written in the signature), and whether it has a default.
\<close>

record param =
  param_name :: string
  annotation :: "string option"
  has_default :: bool

text \<open>
  A \<^verbatim>\<open>CallToolResult\<close> as a Python object: its fields, and the instance attribute
  named \<^verbatim>\<open>_meta\<close>. The attribute is no field of the model: an object just built has
  none, an assignment to it stores the value beside the fields, and the response is made
  of the fields only. \<open>None\<close> stands for an attribute that is missing or \<^verbatim>\<open>None\<close>.
\<close>

record result_object =
  result_fields :: CallToolResult
  underscore_meta :: "meta option"

text \<open>
  What a handler returns: a \<^verbatim>\<open>CallToolResult\<close> object, or any other value, of which
  the dispatcher uses \<^verbatim>\<open>str\<close> only.
\<close>

datatype handler_result = Envelope result_object | Plain string

type_synonym kwargs = "(string \<times> pyval) list"

text \<open>
  A registered function: its docstring, its parameters, and what the call
  \<^verbatim>\<open>tool_func(**arguments)\<close> does (an exception or a returned value).
\<close>

record tool_func =
  tool_doc :: "string option"
  parameters :: "param list"
  invoke :: "kwargs \<Rightarrow> exn + handler_result"

type_synonym registry = "(string \<times> tool_func option) list"

text \<open>\<^verbatim>\<open>_TOOL_FUNCTIONS.get(name)\<close>: \<^verbatim>\<open>None\<close> for a missing key and for a stored \<^verbatim>\<open>None\<close>.\<close>

definition registry_get :: "registry \<Rightarrow> string \<Rightarrow> tool_func option" where
  "registry_get reg name = (case map_of reg name of None \<Rightarrow> None | Some f \<Rightarrow> f)"

text \<open>\<^verbatim>\<open>d[k] = v\<close>: an existing key keeps its place, a new key goes last.\<close>

fun dict_set :: "(string \<times> pyval) list \<Rightarrow> string \<Rightarrow> pyval \<Rightarrow> (string \<times> pyval) list" where
  "dict_set [] k v = [(k, v)]"
| "dict_set ((k', v') # d) k v = (if k' = k then (k, v) # d else (k', v') # dict_set d k v)"

definition param_type :: "param \<Rightarrow> string" where
  "param_type p =
     (case annotation p of
        None \<Rightarrow> ''string''
      | Some ann_str \<Rightarrow>
          if py_in ''int'' ann_str \<or> py_in ''float'' ann_str then ''number''
          else if py_in ''bool'' ann_str then ''boolean''
          else ''string'')"

fun schema_loop ::
  "(string \<times> pyval) list \<Rightarrow> string list \<Rightarrow> param list \<Rightarrow> (string \<times> pyval) list \<times> string list" where
  "schema_loop properties required [] = (properties, required)"
| "schema_loop properties required (p # ps) =
     schema_loop
       (dict_set properties (param_name p)
          (PDict [ (''type'', PStr (param_type p)), (''description'', PStr (param_name p)) ]))
       (if \<not> has_default p then required @ [param_name p] else required)
       ps"

definition build_tool_schema :: "param list \<Rightarrow> pyval" where
  "build_tool_schema ps =
     (case schema_loop [] [] ps of
        (properties, required) \<Rightarrow>
          PDict [ (''type'', PStr ''object''),
                  (''properties'', PDict properties),
                  (''required'', PList (map PStr required)),
                  (''additionalProperties'', PBool False) ])"

text \<open>
  Binding of keyword arguments to a signature: a key that names no parameter is a
  \<^verbatim>\<open>TypeError\<close>, then a parameter without default and without argument is one.
\<close>

definition bind_kwargs :: "string \<Rightarrow> param list \<Rightarrow> kwargs \<Rightarrow> exn + kwargs" where
  "bind_kwargs fname ps args =
     (case filter (\<lambda>kv. fst kv \<notin> set (map param_name ps)) args of
        kv # _ \<Rightarrow> Inl (Exception (fname @ ''() got an unexpected keyword argument '' @ quoted (fst kv)))
      | [] \<Rightarrow>
          (case filter (\<lambda>p. \<not> has_default p \<and> map_of args (param_name p) = None) ps of
             p # _ \<Rightarrow> Inl (Exception (fname @ ''() missing 1 required positional argument: '' @
                                     quoted (param_name p)))
           | [] \<Rightarrow> Inr args))"

definition get_faq_params :: "param list" where
  "get_faq_params = [ \<lparr> param_name = ''query'', annotation = Some ''str'', has_default = False \<rparr> ]"

definition get_item_by_id_params :: "param list" where
  "get_item_by_id_params =
     [ \<lparr> param_name = ''item_id'', annotation = Some ''str'', has_default = False \<rparr> ]"

definition diaper_size_calc_params :: "param list" where
  "diaper_size_calc_params =
     [ \<lparr> param_name = ''weight_kg'', annotation = Some ''Optional[float]'', has_default = True \<rparr>,
       \<lparr> param_name = ''weight_lb'', annotation = Some ''Optional[float]'', has_default = True \<rparr> ]"

definition map_widget_params :: "param list" where
  "map_widget_params =
     [ \<lparr> param_name = ''zip_code'', annotation = Some ''Optional[str]'', has_default = True \<rparr>,
       \<lparr> param_name = ''location'', annotation = Some ''Optional[str]'', has_default = True \<rparr>,
       \<lparr> param_name = ''limit'', annotation = Some ''int'', has_default = True \<rparr> ]"

definition suggest_names_params :: "param list" where
  "suggest_names_params =
     [ \<lparr> param_name = ''prefix'', annotation = Some ''Optional[str]'', has_default = True \<rparr>,
       \<lparr> param_name = ''count'', annotation = Some ''int'', has_default = True \<rparr> ]"

definition predict_gender_params :: "param list" where
  "predict_gender_params =
     [ \<lparr> param_name = ''due_date'', annotation = Some ''Optional[str]'', has_default = True \<rparr>,
       \<lparr> param_name = ''conception_date'', annotation = Some ''Optional[str]'', has_default = True \<rparr> ]"

text \<open>The object a handler builds with the constructor and returns.\<close>

definition returned :: "exn + CallToolResult \<Rightarrow> exn + handler_result" where
  "returned r =
     (case r of
        Inl e \<Rightarrow> Inl e
      | Inr v \<Rightarrow> Inr (Envelope \<lparr> result_fields = v, underscore_meta = None \<rparr>))"

definition invoke_get_faq ::
  "(string \<Rightarrow> string) \<Rightarrow> builtins \<Rightarrow> item list \<Rightarrow> kwargs \<Rightarrow> exn + handler_result" where
  "invoke_get_faq load py K args =
     (case bind_kwargs ''get_faq'' get_faq_params args of
        Inl e \<Rightarrow> Inl e
      | Inr a \<Rightarrow> returned (get_faq load py K (dict_get a ''query'')))"

definition invoke_diaper_size_calc :: "(string \<Rightarrow> string) \<Rightarrow> builtins \<Rightarrow> kwargs \<Rightarrow> exn + handler_result" where
  "invoke_diaper_size_calc load py args =
     (case bind_kwargs ''diaper_size_calc'' diaper_size_calc_params args of
        Inl e \<Rightarrow> Inl e
      | Inr a \<Rightarrow> returned (diaper_size_calc load py (dict_get a ''weight_kg'') (dict_get a ''weight_lb'')))"

definition invoke_predict_gender :: "(string \<Rightarrow> string) \<Rightarrow> builtins \<Rightarrow> kwargs \<Rightarrow> exn + handler_result" where
  "invoke_predict_gender load py args =
     (case bind_kwargs ''predict_gender'' predict_gender_params args of
        Inl e \<Rightarrow> Inl e
      | Inr a \<Rightarrow> returned (predict_gender load py (dict_get a ''due_date'') (dict_get a ''conception_date'')))"

text \<open>
  \<^verbatim>\<open>_TOOL_FUNCTIONS\<close> after the update at the end of the module. The five handlers
  that nothing below looks into (\<^verbatim>\<open>list_faqs\<close>, \<^verbatim>\<open>get_item_by_id\<close>,
  \<^verbatim>\<open>map_widget\<close>, \<^verbatim>\<open>coupons\<close>, \<^verbatim>\<open>suggest_names\<close>) keep their docstrings and
  signatures; what calling them does is the parameter \<open>other\<close>, by tool name.
\<close>

definition TOOL_FUNCTIONS ::
  "(string \<Rightarrow> string) \<Rightarrow> builtins \<Rightarrow> item list \<Rightarrow> (string \<Rightarrow> kwargs \<Rightarrow> exn + handler_result) \<Rightarrow> registry" where
  "TOOL_FUNCTIONS load py K other =
    [ (''get_faq'', Some \<lparr> tool_doc = Some ''Search FAQs and return results with widget cards.'',
         parameters = get_faq_params, invoke = invoke_get_faq load py K \<rparr>),
      (''list_faqs'', Some \<lparr> tool_doc = Some ''List all available FAQs.'',
         parameters = [], invoke = other ''list_faqs'' \<rparr>),
      (''get_item_by_id'', Some \<lparr> tool_doc = Some ''Get a specific FAQ item by ID.'',
         parameters = get_item_by_id_params, invoke = other ''get_item_by_id'' \<rparr>),
      (''diaper_size_calc'', Some \<lparr> tool_doc =
           Some (''Calculate recommended diaper size based on baby'' @ [CHR 0x27] @ ''s weight.''),
         parameters = diaper_size_calc_params, invoke = invoke_diaper_size_calc load py \<rparr>),
      (''map_widget'', Some \<lparr> tool_doc = Some ''Find retailers near a location and display on a map.'',
         parameters = map_widget_params, invoke = other ''map_widget'' \<rparr>),
      (''coupons'', Some \<lparr> tool_doc = Some ''Get current Huggies coupons and offers.'',
         parameters = [], invoke = other ''coupons'' \<rparr>),
      (''suggest_names'', Some \<lparr> tool_doc = Some ''Suggest unique baby names.'',
         parameters = suggest_names_params, invoke = other ''suggest_names'' \<rparr>),
      (''predict_gender'', Some \<lparr> tool_doc = Some ''Playful gender prediction (not medical).'',
         parameters = predict_gender_params, invoke = invoke_predict_gender load py \<rparr>) ]"

text \<open>The table from tool names to widget identifiers, written out in both handlers that use it.\<close>

definition tool_to_widget :: "string \<Rightarrow> string option" where
  "tool_to_widget = map_of
    [ (''get_faq'', ''huggies-cards''),
      (''list_faqs'', ''huggies-cards''),
      (''get_item_by_id'', ''huggies-cards''),
      (''diaper_size_calc'', ''huggies-size-calc''),
      (''map_widget'', ''huggies-map''),
      (''coupons'', ''huggies-offers''),
      (''suggest_names'', ''huggies-names''),
      (''predict_gender'', ''huggies-gender'') ]"

text \<open>
  \<^verbatim>\<open>WIDGETS_BY_ID.get(widget_id) if widget_id else widgets[0]\<close>: the result is
  \<^verbatim>\<open>None\<close> when the identifier is not in the catalog.
\<close>

definition bound_widget :: "(string \<Rightarrow> string) \<Rightarrow> string \<Rightarrow> HuggiesWidget option" where
  "bound_widget load tool_name =
     (case tool_to_widget tool_name of
        None \<Rightarrow> Some (widgets load ! 0)
      | Some widget_id \<Rightarrow>
          if widget_id \<noteq> [] then WIDGETS_BY_ID load widget_id else Some (widgets load ! 0))"

section \<open>Listing tools\<close>

record Tool =
  tool_name :: string
  tool_title :: string
  tool_description :: string
  inputSchema :: pyval
  tool_meta_field :: meta
  tool_annotations :: "(string \<times> pyval) list"

text \<open>\<^verbatim>\<open>xs[0]\<close>: raises \<^verbatim>\<open>IndexError\<close> on the empty list.\<close>

definition py_first :: "'a list \<Rightarrow> exn + 'a" where
  "py_first xs = (case xs of [] \<Rightarrow> Inl (Exception ''list index out of range'') | x # _ \<Rightarrow> Inr x)"

text \<open>
  The title of a tool: the first line of the docstring, stripped; the docstring falls back
  to the tool name.
\<close>

definition doc_of :: "string \<Rightarrow> tool_func \<Rightarrow> string" where
  "doc_of name f = (case tool_doc f of None \<Rightarrow> name | Some d \<Rightarrow> if d \<noteq> [] then d else name)"

definition title_of :: "builtins \<Rightarrow> string \<Rightarrow> string \<Rightarrow> exn + string" where
  "title_of py name doc =
     (if doc \<noteq> []
      then (case py_first (py_split (CHR 0x0A) doc) of
              Inl e \<Rightarrow> Inl e
            | Inr l \<Rightarrow> Inr (str_strip py l))
      else Inr name)"

definition describe_tool :: "string \<Rightarrow> tool_func \<Rightarrow> string \<Rightarrow> HuggiesWidget \<Rightarrow> Tool" where
  "describe_tool name f title_text widget =
     \<lparr> tool_name = name,
       tool_title = title_text,
       tool_description = doc_of name f,
       inputSchema = build_tool_schema (parameters f),
       tool_meta_field = tool_meta widget,
       tool_annotations = [ (''destructiveHint'', PBool False),
                            (''openWorldHint'', PBool False),
                            (''readOnlyHint'', PBool True) ] \<rparr>"

text \<open>
  The loop of \<^verbatim>\<open>_list_tools\<close> over the items of the registry. An entry without
  function is skipped; \<^verbatim>\<open>_tool_meta\<close> of a missing widget is \<^verbatim>\<open>AttributeError\<close>.
\<close>

fun list_tools_loop ::
  "(string \<Rightarrow> string) \<Rightarrow> builtins \<Rightarrow> Tool list \<Rightarrow> registry \<Rightarrow> exn + Tool list" where
  "list_tools_loop load py tools [] = Inr tools"
| "list_tools_loop load py tools ((name, None) # rest) = list_tools_loop load py tools rest"
| "list_tools_loop load py tools ((name, Some f) # rest) =
     (case title_of py name (doc_of name f) of
        Inl e \<Rightarrow> Inl e
      | Inr title_text \<Rightarrow>
          (case bound_widget load name of
             None \<Rightarrow> Inl (no_attribute PNone ''template_uri'')
           | Some widget \<Rightarrow>
               list_tools_loop load py (tools @ [describe_tool name f title_text widget]) rest))"

definition list_tools :: "(string \<Rightarrow> string) \<Rightarrow> builtins \<Rightarrow> registry \<Rightarrow> exn + Tool list" where
  "list_tools load py reg = list_tools_loop load py [] reg"

section \<open>Reading resources\<close>

record ReadResourceRequest =
  req_uri :: string

definition handle_read_resource :: "(string \<Rightarrow> string) \<Rightarrow> ReadResourceRequest \<Rightarrow> ServerResult" where
  "handle_read_resource load req =
     (case WIDGETS_BY_URI load (req_uri req) of
        None \<Rightarrow>
          ReadResourceServerResult
            \<lparr> contents = [],
              rr_meta = Some [ (''error'', PStr (''Unknown resource: '' @ req_uri req)) ] \<rparr>
      | Some widget \<Rightarrow>
          ReadResourceServerResult
            \<lparr> contents = [ \<lparr> trc_uri = template_uri widget,
                             trc_mimeType = MIME_TYPE,
                             trc_text = html widget,
                             trc_meta = Some (tool_meta widget) \<rparr> ],
              rr_meta = None \<rparr>)"

section \<open>Calling tools\<close>

record CallToolRequest =
  req_name :: string
  req_arguments :: "kwargs option"

text \<open>The envelope the dispatcher builds itself for an error: text and flag, nothing else.\<close>

definition error_result :: "string \<Rightarrow> CallToolResult" where
  "error_result text =
     \<lparr> content = [text_content text], structuredContent = None, isError = True,
       result_meta = None \<rparr>"

text \<open>\<^verbatim>\<open>req.params.arguments or {}\<close>.\<close>

definition arguments_or_empty :: "CallToolRequest \<Rightarrow> kwargs" where
  "arguments_or_empty req = (case req_arguments req of None \<Rightarrow> [] | Some a \<Rightarrow> a)"

text \<open>
  \<^verbatim>\<open>_call_tool_request\<close>. The registry is a parameter. Only the call of the handler
  stands inside the \<^verbatim>\<open>try\<close>. For a returned \<^verbatim>\<open>CallToolResult\<close> the test
  \<^verbatim>\<open>not hasattr(result, "_meta") or result._meta is None\<close> reads the attribute, and
  \<^verbatim>\<open>result._meta = ...\<close> assigns the attribute; the response is made of the fields of
  the result. \<^verbatim>\<open>_tool_invocation_meta\<close> of a missing widget raises outside the
  \<^verbatim>\<open>try\<close>, so the function returns an exception or a result.
\<close>

definition call_tool_request ::
  "(string \<Rightarrow> string) \<Rightarrow> registry \<Rightarrow> CallToolRequest \<Rightarrow> exn + ServerResult" where
  "call_tool_request load reg req =
     (case registry_get reg (req_name req) of
        None \<Rightarrow> Inr (CallToolServerResult (error_result (''Unknown tool: '' @ req_name req)))
      | Some tool_func \<Rightarrow>
          (case invoke tool_func (arguments_or_empty req) of
             Inl (Exception msg) \<Rightarrow>
               Inr (CallToolServerResult (error_result (''Tool execution error: '' @ msg)))
           | Inr (Envelope result) \<Rightarrow>
               (if underscore_meta result = None
                then (case bound_widget load (req_name req) of
                        None \<Rightarrow> Inl (no_attribute PNone ''invoking'')
                      | Some widget \<Rightarrow>
                          Inr (CallToolServerResult
                                 (result_fields (result\<lparr> underscore_meta :=
                                                    Some (tool_invocation_meta widget) \<rparr>))))
                else Inr (CallToolServerResult (result_fields result)))
           | Inr (Plain s) \<Rightarrow>
               (let widget = (case WIDGETS_BY_ID load ''huggies-cards'' of
                                None \<Rightarrow> widgets load ! 0
                              | Some w \<Rightarrow> w)
                in Inr (CallToolServerResult
                          \<lparr> content = [text_content s], structuredContent = None,
                            isError = False,
                            result_meta = Some (tool_invocation_meta widget) \<rparr>))))"

text \<open>The envelope of a response, when the dispatcher returned one.\<close>

definition envelope_of :: "exn + ServerResult \<Rightarrow> CallToolResult option" where
  "envelope_of r = (case r of Inr (CallToolServerResult e) \<Rightarrow> Some e | _ \<Rightarrow> None)"

section \<open>The specification's descriptions, to compare with the code\<close>

subsection \<open>Search ranking\<close>

text \<open>
  A record of the knowledge store as the data model describes it: title, question and
  answer are strings and the tags are a list of strings, each of them possibly missing.
\<close>

definition is_text :: "pyval option \<Rightarrow> bool" where
  "is_text v = (case v of None \<Rightarrow> True | Some (PStr s) \<Rightarrow> True | Some _ \<Rightarrow> False)"

definition is_PStr :: "pyval \<Rightarrow> bool" where
  "is_PStr v = (case v of PStr s \<Rightarrow> True | _ \<Rightarrow> False)"

definition wf_record :: "item \<Rightarrow> bool" where
  "wf_record r =
     (is_text (map_of r ''title'') \<and> is_text (map_of r ''question'') \<and>
      is_text (map_of r ''answer'') \<and>
      (case map_of r ''tags'' of
         None \<Rightarrow> True
       | Some (PList ts) \<Rightarrow> list_all is_PStr ts
       | Some _ \<Rightarrow> False))"

text \<open>
  A text field of a record in lowercase (of the empty text when the field is missing), and
  the tags of a record.
\<close>

definition field_lower :: "builtins \<Rightarrow> item \<Rightarrow> string \<Rightarrow> string" where
  "field_lower py r k = (case map_of r k of Some (PStr s) \<Rightarrow> str_lower py s | _ \<Rightarrow> str_lower py [])"

definition the_str :: "pyval \<Rightarrow> string" where
  "the_str v = (case v of PStr s \<Rightarrow> s | _ \<Rightarrow> [])"

definition record_tags :: "item \<Rightarrow> string list" where
  "record_tags r = (case map_of r ''tags'' of Some (PList ts) \<Rightarrow> map the_str ts | _ \<Rightarrow> [])"

text \<open>
  The whitespace-delimited tokens of a text: the pieces of its split, none of them empty.
\<close>

definition tokens :: "builtins \<Rightarrow> string \<Rightarrow> string list" where
  "tokens py q = filter (\<lambda>w. w \<noteq> []) (str_split py q)"

text \<open>
  The score as the specification words it, for a lowercase query \<open>q\<close>: 5 if \<open>q\<close> occurs
  in the lowercase title, 4 if it occurs in the lowercase question, 3 for each tag whose
  lowercase form occurs in \<open>q\<close>, 1 for each token of \<open>q\<close> (repetitions counted) that
  occurs in the lowercase answer.
\<close>

definition spec_score :: "builtins \<Rightarrow> string \<Rightarrow> item \<Rightarrow> int" where
  "spec_score py q r =
     (if py_in q (field_lower py r ''title'') then 5 else 0) +
     (if py_in q (field_lower py r ''question'') then 4 else 0) +
     3 * int (length (filter (\<lambda>t. py_in (str_lower py t) q) (record_tags r))) +
     int (length (filter (\<lambda>w. py_in w (field_lower py r ''answer'')) (tokens py q)))"

text \<open>
  The ranking as the specification words it: the records of positive score, highest
  score first, records of equal score in the order of the store.
\<close>

definition spec_ranked :: "builtins \<Rightarrow> string \<Rightarrow> item list \<Rightarrow> item list" where
  "spec_ranked py q K =
     sort_key (\<lambda>r. - spec_score py q r) (filter (\<lambda>r. 0 < spec_score py q r) K)"

subsection \<open>Size bands\<close>

text \<open>
  The six bands in the order the specification lists them: lower bound (none for the
  first), upper bound, size label and range description. The first band that contains the
  weight wins; a weight in no band is size 6.
\<close>

definition size_bands :: "(real option \<times> real \<times> string \<times> string) list" where
  "size_bands =
    [ (None, 10, ''N (Newborn)'', ''up to 10 lbs''),
      (Some 8, 14, ''1'', ''8'' @ en_dash @ ''14 lbs''),
      (Some 12, 18, ''2'', ''12'' @ en_dash @ ''18 lbs''),
      (Some 16, 28, ''3'', ''16'' @ en_dash @ ''28 lbs''),
      (Some 22, 37, ''4'', ''22'' @ en_dash @ ''37 lbs''),
      (Some 27, 40, ''5'', ''27+ lbs (varies by product)'') ]"

definition in_band :: "real \<Rightarrow> real option \<times> real \<times> string \<times> string \<Rightarrow> bool" where
  "in_band w b = ((case fst b of None \<Rightarrow> True | Some lo \<Rightarrow> lo \<le> w) \<and> w \<le> fst (snd b))"

definition first_matching_band :: "real \<Rightarrow> string \<times> string" where
  "first_matching_band w =
     (case find (in_band w) size_bands of
        None \<Rightarrow> (''6'', ''35+ lbs'')
      | Some b \<Rightarrow> snd (snd b))"

subsection \<open>Schemas\<close>

text \<open>
  The type of a parameter as the specification words it: \<^verbatim>\<open>number\<close> if the annotation
  contains \<^verbatim>\<open>int\<close> or \<^verbatim>\<open>float\<close>, \<^verbatim>\<open>boolean\<close> if it contains \<^verbatim>\<open>bool\<close>, else
  \<^verbatim>\<open>string\<close>; and the schema with one property per parameter and the parameters
  without default as the required ones.
\<close>

definition spec_type :: "string option \<Rightarrow> string" where
  "spec_type ann =
     (let a = (case ann of None \<Rightarrow> [] | Some t \<Rightarrow> t) in
      if py_in ''int'' a \<or> py_in ''float'' a then ''number''
      else if py_in ''bool'' a then ''boolean''
      else ''string'')"

definition spec_schema :: "param list \<Rightarrow> pyval" where
  "spec_schema ps =
     PDict [ (''type'', PStr ''object''),
             (''properties'', PDict (map (\<lambda>p. (param_name p,
                  PDict [ (''type'', PStr (spec_type (annotation p))),
                          (''description'', PStr (param_name p)) ])) ps)),
             (''required'', PList (map (\<lambda>p. PStr (param_name p)) (filter (\<lambda>p. \<not> has_default p) ps))),
             (''additionalProperties'', PBool False) ]"

text \<open>The registered entries of a registry, and whether a signature names each parameter once.\<close>

definition registered :: "registry \<Rightarrow> (string \<times> tool_func) list" where
  "registered reg = concat (map (\<lambda>e. case snd e of None \<Rightarrow> [] | Some f \<Rightarrow> [(fst e, f)]) reg)"

definition distinct_params :: "string \<times> tool_func \<Rightarrow> bool" where
  "distinct_params e = distinct (map param_name (parameters (snd e)))"

subsection \<open>Reading a response\<close>

text \<open>The value at a path of keys in nested dicts, and in the structured content of a result.\<close>

fun path_get :: "pyval \<Rightarrow> string list \<Rightarrow> pyval" where
  "path_get v [] = v"
| "path_get (PDict d) (k # ks) = (case map_of d k of None \<Rightarrow> PNone | Some v \<Rightarrow> path_get v ks)"
| "path_get v (k # ks) = PNone"

definition structured :: "exn + CallToolResult \<Rightarrow> string list \<Rightarrow> pyval" where
  "structured r path =
     (case r of
        Inl e \<Rightarrow> PNone
      | Inr e \<Rightarrow> (case structuredContent e of None \<Rightarrow> PNone | Some v \<Rightarrow> path_get v path))"

section \<open>A sample deployment\<close>

text \<open>
  Concrete values for the parameters, on which the theorems below are evaluated: markup
  for the six widgets, a knowledge store of four records, and a stand-in for the five
  handlers behind \<open>other\<close> that returns a plain string.
\<close>

definition sample_load :: "string \<Rightarrow> string" where
  "sample_load component_name = ''<div id='' @ component_name @ ''></div>''"

definition faq_1 :: item where
  "faq_1 =
    [ (''id'', PStr ''faq-1''), (''title'', PStr ''Diaper rash care''),
      (''question'', PStr ''How do I treat diaper rash?''),
      (''answer'', PStr ''Keep the area clean and dry and use a barrier cream.''),
      (''tags'', PList [PStr ''rash'', PStr ''skin'']),
      (''source_url'', PStr ''https://example.org/rash''), (''type'', PStr ''faq'') ]"

definition faq_2 :: item where
  "faq_2 =
    [ (''id'', PStr ''faq-2''), (''title'', PStr ''Choosing a size''),
      (''question'', PStr ''Which size fits my baby?''),
      (''answer'', PStr ''Sizes follow weight; a rash at the legs can mean the size is small.''),
      (''tags'', PList [PStr ''size'', PStr ''fit'']),
      (''source_url'', PStr ''https://example.org/size''), (''type'', PStr ''faq'') ]"

definition faq_3 :: item where
  "faq_3 =
    [ (''id'', PStr ''faq-3''), (''title'', PStr ''Overnight leaks''),
      (''question'', PStr ''How can I stop leaks at night?''),
      (''answer'', PStr ''Try an overnight diaper and check the fit.''),
      (''tags'', PList [PStr ''Leaks'', PStr ''night'']),
      (''source_url'', PStr ''https://example.org/leaks''), (''type'', PStr ''faq'') ]"

definition faq_4 :: item where
  "faq_4 =
    [ (''id'', PStr ''faq-4''), (''title'', PStr ''Rash creams''),
      (''question'', PStr ''Which cream helps?''),
      (''answer'', PStr ''A zinc oxide cream protects the skin.''),
      (''tags'', PList [PStr ''cream'']),
      (''source_url'', PStr ''https://example.org/cream''), (''type'', PStr ''faq'') ]"

definition sample_K :: "item list" where
  "sample_K = [faq_1, faq_2, faq_3, faq_4]"

definition sample_other :: "string \<Rightarrow> kwargs \<Rightarrow> exn + handler_result" where
  "sample_other name args = Inr (Plain (''result of '' @ name))"

definition sample_registry :: registry where
  "sample_registry = TOOL_FUNCTIONS sample_load exact_builtins sample_K sample_other"

section \<open>The widget catalog and its indices\<close>

lemma by_id_cards: "WIDGETS_BY_ID load ''huggies-cards'' = Some (widgets load ! 0)"
  by (simp add: WIDGETS_BY_ID_def widgets_def)

lemma by_id_size_calc: "WIDGETS_BY_ID load ''huggies-size-calc'' = Some (widgets load ! 1)"
  by (simp add: WIDGETS_BY_ID_def widgets_def)

lemma by_id_gender: "WIDGETS_BY_ID load ''huggies-gender'' = Some (widgets load ! 5)"
  by (simp add: WIDGETS_BY_ID_def widgets_def)

text \<open>
  Every tool name is bound to a widget of the catalog: the one the table names, the first
  one for a name outside the table. So \<^verbatim>\<open>_tool_invocation_meta\<close> never meets
  \<^verbatim>\<open>None\<close>.
\<close>

lemma bound_widget_in_catalog:
  "\<exists>w. bound_widget load name = Some w \<and> w \<in> set (widgets load) \<and>
       (\<forall>wid. tool_to_widget name = Some wid \<longrightarrow> widget_identifier w = wid)"
  by (simp add: bound_widget_def tool_to_widget_def WIDGETS_BY_ID_def widgets_def)

lemma sample_registry_unknown: "registry_get sample_registry ''nonexistent-tool'' = None"
  by (simp add: registry_get_def sample_registry_def TOOL_FUNCTIONS_def)

lemma sample_registry_get_faq:
  "registry_get sample_registry ''get_faq'' =
     Some \<lparr> tool_doc = Some ''Search FAQs and return results with widget cards.'',
            parameters = get_faq_params,
            invoke = invoke_get_faq sample_load exact_builtins sample_K \<rparr>"
  by (simp add: registry_get_def sample_registry_def TOOL_FUNCTIONS_def)

lemma sample_registry_coupons:
  "registry_get sample_registry ''coupons'' =
     Some \<lparr> tool_doc = Some ''Get current Huggies coupons and offers.'',
            parameters = [], invoke = sample_other ''coupons'' \<rparr>"
  by (simp add: registry_get_def sample_registry_def TOOL_FUNCTIONS_def)

lemma sample_registry_predict_gender:
  "registry_get sample_registry ''predict_gender'' =
     Some \<lparr> tool_doc = Some ''Playful gender prediction (not medical).'',
            parameters = predict_gender_params,
            invoke = invoke_predict_gender sample_load exact_builtins \<rparr>"
  by (simp add: registry_get_def sample_registry_def TOOL_FUNCTIONS_def)

lemma get_faq_without_arguments:
  "invoke_get_faq load py K [] =
     Inl (Exception (''get_faq() missing 1 required positional argument: '' @ [CHR 0x27] @ ''query'' @ [CHR 0x27]))"
  by (simp add: invoke_get_faq_def bind_kwargs_def get_faq_params_def quoted_def)

lemma py_split_nonempty: "py_split sep s \<noteq> []"
  by (induction s) (auto split: list.splits)

lemma registry_predict_gender:
  "registry_get (TOOL_FUNCTIONS load py K other) ''predict_gender'' =
     Some \<lparr> tool_doc = Some ''Playful gender prediction (not medical).'',
            parameters = predict_gender_params,
            invoke = invoke_predict_gender load py \<rparr>"
  by (simp add: registry_get_def TOOL_FUNCTIONS_def)

lemma gender_widget_labels:
  "tool_invocation_meta (widgets load ! 5) =
     [ (''openai/toolInvocation/invoking'', PStr ''Predicting gender''),
       (''openai/toolInvocation/invoked'', PStr ''Prediction complete'') ]"
  by (simp add: widgets_def tool_invocation_meta_def)

lemma bind_predict_gender:
  assumes "set (map fst args) \<subseteq> {''due_date'', ''conception_date''}"
  shows "bind_kwargs ''predict_gender'' predict_gender_params args = Inr args"
proof -
  have "filter (\<lambda>kv. fst kv \<notin> set (map param_name predict_gender_params)) args = []"
    using assms by (auto simp add: predict_gender_params_def filter_empty_conv)
  then show ?thesis
    by (simp add: bind_kwargs_def predict_gender_params_def)
qed

lemma cards_widget_labels:
  "tool_invocation_meta (widgets load ! 0) =
     [ (''openai/toolInvocation/invoking'', PStr ''Searching FAQs''),
       (''openai/toolInvocation/invoked'', PStr ''Found FAQ results'') ]"
  by (simp add: widgets_def tool_invocation_meta_def)

text \<open>
  The fields of a \<^verbatim>\<open>CallToolResult\<close> that a handler returns are the response, with
  or without the attribute: the assignment in the dispatcher does not reach them.
\<close>

lemma returned_fields_are_the_response:
  assumes "registry_get reg (req_name req) = Some f"
    and "invoke f (arguments_or_empty req) = Inr (Envelope obj)"
  shows "call_tool_request load reg req = Inr (CallToolServerResult (result_fields obj))"
proof -
  obtain w where "bound_widget load (req_name req) = Some w"
    using bound_widget_in_catalog by blast
  then show ?thesis
    using assms by (simp add: call_tool_request_def)
qed

section \<open>Calling tools: the dispatcher\<close>

text \<open>
  C2. A CallTool request whose name is not a registered tool returns, without raising, an
  envelope with \<^verbatim>\<open>isError\<close> set and the text \<^verbatim>\<open>Unknown tool: <name>\<close>.
\<close>

theorem unknown_tool_error_envelope:
  assumes "registry_get reg (req_name req) = None"
  shows "call_tool_request load reg req =
         Inr (CallToolServerResult
                \<lparr> content = [\<lparr> tc_type = ''text'', tc_text = ''Unknown tool: '' @ req_name req \<rparr>],
                  structuredContent = None, isError = True, result_meta = None \<rparr>)"
  using assms by (simp add: call_tool_request_def error_result_def text_content_def)

theorem unknown_tool_error_envelope_witness:
  "registry_get sample_registry ''nonexistent-tool'' = None \<and>
   call_tool_request sample_load sample_registry
     \<lparr> req_name = ''nonexistent-tool'', req_arguments = Some [] \<rparr> =
   Inr (CallToolServerResult
          \<lparr> content = [\<lparr> tc_type = ''text'', tc_text = ''Unknown tool: nonexistent-tool'' \<rparr>],
            structuredContent = None, isError = True, result_meta = None \<rparr>)"
  using unknown_tool_error_envelope
          [of sample_registry "\<lparr> req_name = ''nonexistent-tool'', req_arguments = Some [] \<rparr>" sample_load]
        sample_registry_unknown
  by simp

text \<open>
  C3. When the registered handler raises an exception, the dispatcher returns, without
  raising, an envelope with \<^verbatim>\<open>isError\<close> set and the text
  \<^verbatim>\<open>Tool execution error: <str(e)>\<close>.
\<close>

theorem handler_exception_error_envelope:
  assumes "registry_get reg (req_name req) = Some f"
    and "invoke f (arguments_or_empty req) = Inl (Exception msg)"
  shows "call_tool_request load reg req =
         Inr (CallToolServerResult
                \<lparr> content = [\<lparr> tc_type = ''text'', tc_text = ''Tool execution error: '' @ msg \<rparr>],
                  structuredContent = None, isError = True, result_meta = None \<rparr>)"
  using assms by (simp add: call_tool_request_def error_result_def text_content_def)

theorem handler_exception_error_envelope_witness:
  "call_tool_request sample_load sample_registry \<lparr> req_name = ''get_faq'', req_arguments = None \<rparr> =
   Inr (CallToolServerResult
          \<lparr> content = [\<lparr> tc_type = ''text'',
                         tc_text = ''Tool execution error: get_faq() missing 1 required positional argument: '' @
                                   [CHR 0x27] @ ''query'' @ [CHR 0x27] \<rparr>],
            structuredContent = None, isError = True, result_meta = None \<rparr>)"
proof -
  let ?req = "\<lparr> req_name = ''get_faq'', req_arguments = None \<rparr>"
  have r: "registry_get sample_registry (req_name ?req) =
             Some \<lparr> tool_doc = Some ''Search FAQs and return results with widget cards.'',
                    parameters = get_faq_params,
                    invoke = invoke_get_faq sample_load exact_builtins sample_K \<rparr>"
    using sample_registry_get_faq by simp
  have i: "invoke \<lparr> tool_doc = Some ''Search FAQs and return results with widget cards.'',
                    parameters = get_faq_params,
                    invoke = invoke_get_faq sample_load exact_builtins sample_K \<rparr>
             (arguments_or_empty ?req) =
           Inl (Exception (''get_faq() missing 1 required positional argument: '' @ [CHR 0x27] @ ''query'' @ [CHR 0x27]))"
    using get_faq_without_arguments by (simp add: arguments_or_empty_def)
  show ?thesis using handler_exception_error_envelope [OF r i, of sample_load] by simp
qed

text \<open>
  C1, as the code has it. The two envelopes the dispatcher builds for an error carry no
  metadata: the response to an unknown tool name has \<^verbatim>\<open>_meta\<close> \<^verbatim>\<open>None\<close>.
\<close>

theorem unknown_tool_response_lacks_metadata:
  "map_option result_meta
     (envelope_of (call_tool_request sample_load sample_registry
                     \<lparr> req_name = ''nonexistent-tool'', req_arguments = None \<rparr>)) = Some None"
  using sample_registry_unknown
  by (simp add: call_tool_request_def envelope_of_def error_result_def)

text \<open>
  C1, amended. The metadata of a response is: none on the two envelopes the dispatcher
  builds for an error (unknown tool, exception of the handler); the metadata of the
  handler, unchanged and with the rest of the handler's result, when the handler returns
  a \<^verbatim>\<open>CallToolResult\<close> that carries metadata; the invocation labels of the
  \<^verbatim>\<open>huggies-cards\<close> widget when the handler returns a value of another kind.
\<close>

theorem handler_metadata_is_preserved:
  "(registry_get reg (req_name req) = None \<longrightarrow>
      map_option result_meta (envelope_of (call_tool_request load reg req)) = Some None)
   \<and> (\<forall>f e. registry_get reg (req_name req) = Some f \<and>
            invoke f (arguments_or_empty req) = Inl e \<longrightarrow>
      map_option result_meta (envelope_of (call_tool_request load reg req)) = Some None)
   \<and> (\<forall>f obj m. registry_get reg (req_name req) = Some f \<and>
            invoke f (arguments_or_empty req) = Inr (Envelope obj) \<and>
            result_meta (result_fields obj) = Some m \<longrightarrow>
      call_tool_request load reg req = Inr (CallToolServerResult (result_fields obj)) \<and>
      map_option result_meta (envelope_of (call_tool_request load reg req)) = Some (Some m))
   \<and> (\<forall>f s. registry_get reg (req_name req) = Some f \<and>
            invoke f (arguments_or_empty req) = Inr (Plain s) \<longrightarrow>
      call_tool_request load reg req =
        Inr (CallToolServerResult
               \<lparr> content = [\<lparr> tc_type = ''text'', tc_text = s \<rparr>],
                 structuredContent = None, isError = False,
                 result_meta = Some
                   [ (''openai/toolInvocation/invoking'', PStr ''Searching FAQs''),
                     (''openai/toolInvocation/invoked'', PStr ''Found FAQ results'') ] \<rparr>))"
proof (intro conjI allI impI)
  assume "registry_get reg (req_name req) = None"
  then show "map_option result_meta (envelope_of (call_tool_request load reg req)) = Some None"
    by (simp add: call_tool_request_def envelope_of_def error_result_def)
next
  fix f e
  assume "registry_get reg (req_name req) = Some f \<and> invoke f (arguments_or_empty req) = Inl e"
  then show "map_option result_meta (envelope_of (call_tool_request load reg req)) = Some None"
    by (cases e) (simp add: call_tool_request_def envelope_of_def error_result_def)
next
  fix f obj m
  assume a: "registry_get reg (req_name req) = Some f \<and>
             invoke f (arguments_or_empty req) = Inr (Envelope obj) \<and>
             result_meta (result_fields obj) = Some m"
  then have r: "call_tool_request load reg req = Inr (CallToolServerResult (result_fields obj))"
    using returned_fields_are_the_response by blast
  show "call_tool_request load reg req = Inr (CallToolServerResult (result_fields obj))"
    by (rule r)
  show "map_option result_meta (envelope_of (call_tool_request load reg req)) = Some (Some m)"
    using a by (simp add: r envelope_of_def)
next
  fix f s
  assume "registry_get reg (req_name req) = Some f \<and>
          invoke f (arguments_or_empty req) = Inr (Plain s)"
  then show "call_tool_request load reg req =
        Inr (CallToolServerResult
               \<lparr> content = [\<lparr> tc_type = ''text'', tc_text = s \<rparr>],
                 structuredContent = None, isError = False,
                 result_meta = Some
                   [ (''openai/toolInvocation/invoking'', PStr ''Searching FAQs''),
                     (''openai/toolInvocation/invoked'', PStr ''Found FAQ results'') ] \<rparr>)"
    by (simp add: call_tool_request_def by_id_cards cards_widget_labels text_content_def)
qed

lemma sample_predict_gender_call:
  "invoke_predict_gender sample_load exact_builtins [(''due_date'', PStr ''not-a-date'')] =
   returned (predict_gender sample_load exact_builtins (PStr ''not-a-date'') PNone)"
  by (simp add: invoke_predict_gender_def bind_kwargs_def predict_gender_params_def dict_get_def)

theorem handler_metadata_is_preserved_witness:
  "map_option result_meta
     (envelope_of (call_tool_request sample_load sample_registry
        \<lparr> req_name = ''predict_gender'',
          req_arguments = Some [(''due_date'', PStr ''not-a-date'')] \<rparr>)) =
   Some (Some [ (''openai/toolInvocation/invoking'', PStr ''Predicting gender''),
                (''openai/toolInvocation/invoked'', PStr ''Prediction complete'') ])
   \<and> call_tool_request sample_load sample_registry
        \<lparr> req_name = ''coupons'', req_arguments = None \<rparr> =
      Inr (CallToolServerResult
             \<lparr> content = [\<lparr> tc_type = ''text'', tc_text = ''result of coupons'' \<rparr>],
               structuredContent = None, isError = False,
               result_meta = Some
                 [ (''openai/toolInvocation/invoking'', PStr ''Searching FAQs''),
                   (''openai/toolInvocation/invoked'', PStr ''Found FAQ results'') ] \<rparr>)"
proof -
  let ?g = "\<lparr> req_name = ''predict_gender'',
              req_arguments = Some [(''due_date'', PStr ''not-a-date'')] \<rparr>"
  let ?c = "\<lparr> req_name = ''coupons'', req_arguments = None \<rparr>"
  obtain v where v: "predict_gender sample_load exact_builtins (PStr ''not-a-date'') PNone = Inr v"
      "result_meta v = Some [ (''openai/toolInvocation/invoking'', PStr ''Predicting gender''),
                             (''openai/toolInvocation/invoked'', PStr ''Prediction complete'') ]"
    by (simp add: predict_gender_def by_id_gender gender_widget_labels Let_def)
  have g: "registry_get sample_registry (req_name ?g) =
             Some \<lparr> tool_doc = Some ''Playful gender prediction (not medical).'',
                    parameters = predict_gender_params,
                    invoke = invoke_predict_gender sample_load exact_builtins \<rparr> \<and>
           invoke \<lparr> tool_doc = Some ''Playful gender prediction (not medical).'',
                    parameters = predict_gender_params,
                    invoke = invoke_predict_gender sample_load exact_builtins \<rparr>
             (arguments_or_empty ?g) = Inr (Envelope \<lparr> result_fields = v, underscore_meta = None \<rparr>) \<and>
           result_meta (result_fields \<lparr> result_fields = v, underscore_meta = None \<rparr>) =
             Some [ (''openai/toolInvocation/invoking'', PStr ''Predicting gender''),
                    (''openai/toolInvocation/invoked'', PStr ''Prediction complete'') ]"
    using sample_registry_predict_gender v
    by (simp add: arguments_or_empty_def sample_predict_gender_call returned_def)
  have c: "registry_get sample_registry (req_name ?c) =
             Some \<lparr> tool_doc = Some ''Get current Huggies coupons and offers.'',
                    parameters = [], invoke = sample_other ''coupons'' \<rparr> \<and>
           invoke \<lparr> tool_doc = Some ''Get current Huggies coupons and offers.'',
                    parameters = [], invoke = sample_other ''coupons'' \<rparr>
             (arguments_or_empty ?c) = Inr (Plain ''result of coupons'')"
    using sample_registry_coupons by (simp add: sample_other_def)
  note t = handler_metadata_is_preserved [of sample_registry ?g sample_load]
  note u = handler_metadata_is_preserved [of sample_registry ?c sample_load]
  have a: "map_option result_meta (envelope_of (call_tool_request sample_load sample_registry ?g)) =
           Some (Some [ (''openai/toolInvocation/invoking'', PStr ''Predicting gender''),
                        (''openai/toolInvocation/invoked'', PStr ''Prediction complete'') ])"
    using t [THEN conjunct2, THEN conjunct2, THEN conjunct1] g by blast
  have b: "call_tool_request sample_load sample_registry ?c =
      Inr (CallToolServerResult
             \<lparr> content = [\<lparr> tc_type = ''text'', tc_text = ''result of coupons'' \<rparr>],
               structuredContent = None, isError = False,
               result_meta = Some
                 [ (''openai/toolInvocation/invoking'', PStr ''Searching FAQs''),
                   (''openai/toolInvocation/invoked'', PStr ''Found FAQ results'') ] \<rparr>)"
    using u [THEN conjunct2, THEN conjunct2, THEN conjunct2] c by blast
  show ?thesis using a b by (intro conjI) assumption+
qed

section \<open>Reading resources: hit and miss\<close>

text \<open>
  C6. A ReadResource request whose URI is the template URI of a widget of the catalog
  returns one content entry: that URI, the fixed MIME type, the markup loaded for the
  widget, and the metadata of that widget, which are its template URI, its two invocation
  labels and the two flags. A request whose URI belongs to no widget returns an empty
  content list with an \<^verbatim>\<open>error\<close> entry in the metadata of the result. Both are
  returned results; the handler has no failing branch.
\<close>

theorem read_resource_hit_or_miss:
  "(\<forall>w \<in> set (widgets load). template_uri w = req_uri req \<longrightarrow>
      handle_read_resource load req =
        ReadResourceServerResult
          \<lparr> contents = [ \<lparr> trc_uri = req_uri req, trc_mimeType = ''text/html+skybridge'',
                           trc_text = load (widget_identifier w),
                           trc_meta = Some
                             [ (''openai/outputTemplate'', PStr (template_uri w)),
                               (''openai/toolInvocation/invoking'', PStr (invoking w)),
                               (''openai/toolInvocation/invoked'', PStr (invoked w)),
                               (''openai/widgetAccessible'', PBool True),
                               (''openai/resultCanProduceWidget'', PBool True) ] \<rparr> ],
            rr_meta = None \<rparr>)
   \<and> ((\<forall>w \<in> set (widgets load). template_uri w \<noteq> req_uri req) \<longrightarrow>
      handle_read_resource load req =
        ReadResourceServerResult
          \<lparr> contents = [],
            rr_meta = Some [ (''error'', PStr (''Unknown resource: '' @ req_uri req)) ] \<rparr>)"
  by (simp add: handle_read_resource_def WIDGETS_BY_URI_def widgets_def MIME_TYPE_def tool_meta_def)

theorem read_resource_hit_or_miss_witness:
  "handle_read_resource sample_load \<lparr> req_uri = ''ui://widget/huggies-cards.html'' \<rparr> =
     ReadResourceServerResult
       \<lparr> contents = [ \<lparr> trc_uri = ''ui://widget/huggies-cards.html'',
                        trc_mimeType = ''text/html+skybridge'',
                        trc_text = ''<div id=huggies-cards></div>'',
                        trc_meta = Some
                          [ (''openai/outputTemplate'', PStr ''ui://widget/huggies-cards.html''),
                            (''openai/toolInvocation/invoking'', PStr ''Searching FAQs''),
                            (''openai/toolInvocation/invoked'', PStr ''Found FAQ results''),
                            (''openai/widgetAccessible'', PBool True),
                            (''openai/resultCanProduceWidget'', PBool True) ] \<rparr> ],
         rr_meta = None \<rparr>
   \<and> handle_read_resource sample_load \<lparr> req_uri = ''ui://widget/huggies-gender.html'' \<rparr> =
     ReadResourceServerResult
       \<lparr> contents = [ \<lparr> trc_uri = ''ui://widget/huggies-gender.html'',
                        trc_mimeType = ''text/html+skybridge'',
                        trc_text = ''<div id=huggies-gender></div>'',
                        trc_meta = Some
                          [ (''openai/outputTemplate'', PStr ''ui://widget/huggies-gender.html''),
                            (''openai/toolInvocation/invoking'', PStr ''Predicting gender''),
                            (''openai/toolInvocation/invoked'', PStr ''Prediction complete''),
                            (''openai/widgetAccessible'', PBool True),
                            (''openai/resultCanProduceWidget'', PBool True) ] \<rparr> ],
         rr_meta = None \<rparr>
   \<and> handle_read_resource sample_load \<lparr> req_uri = ''ui://unknown'' \<rparr> =
     ReadResourceServerResult
       \<lparr> contents = [], rr_meta = Some [ (''error'', PStr ''Unknown resource: ui://unknown'') ] \<rparr>"
  using read_resource_hit_or_miss [of sample_load "\<lparr> req_uri = ''ui://widget/huggies-cards.html'' \<rparr>"]
        read_resource_hit_or_miss [of sample_load "\<lparr> req_uri = ''ui://widget/huggies-gender.html'' \<rparr>"]
        read_resource_hit_or_miss [of sample_load "\<lparr> req_uri = ''ui://unknown'' \<rparr>"]
  by (simp add: widgets_def sample_load_def)

section \<open>Gender prediction: what the dates do\<close>

text \<open>
  C10. For a fixed \<^verbatim>\<open>due_date\<close>, two calls of \<^verbatim>\<open>predict_gender\<close> that differ only
  in \<^verbatim>\<open>conception_date\<close> both return; they have the same text, error flag and
  metadata and the same prediction, which are functions of \<^verbatim>\<open>due_date\<close> alone. The
  only place where the conception date appears is its own entry of the backend.
\<close>

theorem conception_date_never_influences_prediction:
  "\<exists>e1 e2. predict_gender load py due_date c1 = Inr e1
         \<and> predict_gender load py due_date c2 = Inr e2
         \<and> content e1 = [\<lparr> tc_type = ''text'', tc_text = gender_text (gender_prediction py due_date) \<rparr>]
         \<and> content e2 = content e1
         \<and> isError e2 = isError e1
         \<and> result_meta e2 = result_meta e1
         \<and> structuredContent e1 = Some (PDict
              [ (''text'', PStr (gender_text (gender_prediction py due_date))),
                (''backend'', PDict [ (''prediction'', PStr (gender_prediction py due_date)),
                                      (''due_date'', due_date),
                                      (''conception_date'', c1) ]),
                (''widget'', PDict [ (''widget_type'', PStr ''gender_predictor''),
                                     (''prediction'', PStr (gender_prediction py due_date)) ]) ])
         \<and> structuredContent e2 = Some (PDict
              [ (''text'', PStr (gender_text (gender_prediction py due_date))),
                (''backend'', PDict [ (''prediction'', PStr (gender_prediction py due_date)),
                                      (''due_date'', due_date),
                                      (''conception_date'', c2) ]),
                (''widget'', PDict [ (''widget_type'', PStr ''gender_predictor''),
                                     (''prediction'', PStr (gender_prediction py due_date)) ]) ])"
  by (simp add: predict_gender_def by_id_gender text_content_def Let_def)

theorem conception_date_never_influences_prediction_witness:
  "map_sum id content (predict_gender sample_load exact_builtins (PStr ''2025-01-07'') PNone) =
     Inr [\<lparr> tc_type = ''text'', tc_text = ''Playful prediction: boy (not medical).'' \<rparr>]
   \<and> map_sum id content (predict_gender sample_load exact_builtins (PStr ''2025-01-07'') (PStr ''2024-04-01'')) =
     Inr [\<lparr> tc_type = ''text'', tc_text = ''Playful prediction: boy (not medical).'' \<rparr>]"
proof -
  have g: "gender_prediction exact_builtins (PStr ''2025-01-07'') = ''boy''"
    by (simp add: gender_prediction_def py_truthy_def parse_day_def py_last_def exact_builtins_def
        int_ascii_def ascii_strip_def ascii_isspace_def is_digit_def digits_value_def)
  from conception_date_never_influences_prediction
         [of sample_load exact_builtins "PStr ''2025-01-07''" PNone "PStr ''2024-04-01''"]
  show ?thesis by (auto simp add: g gender_text_def)
qed

text \<open>
  C9, as the code has it. A CallTool to \<^verbatim>\<open>predict_gender\<close> with the due date
  \<^verbatim>\<open>not-a-date\<close> returns an envelope whose \<^verbatim>\<open>isError\<close> is false.
\<close>

theorem unparsable_due_date_is_not_an_error:
  "map_option isError
     (envelope_of (call_tool_request sample_load sample_registry
        \<lparr> req_name = ''predict_gender'',
          req_arguments = Some [(''due_date'', PStr ''not-a-date'')] \<rparr>)) = Some False"
proof -
  let ?req = "\<lparr> req_name = ''predict_gender'',
                req_arguments = Some [(''due_date'', PStr ''not-a-date'')] \<rparr>"
  obtain v where v: "predict_gender sample_load exact_builtins (PStr ''not-a-date'') PNone = Inr v"
      "isError v = False"
    by (simp add: predict_gender_def by_id_gender Let_def)
  have r: "registry_get sample_registry (req_name ?req) =
             Some \<lparr> tool_doc = Some ''Playful gender prediction (not medical).'',
                    parameters = predict_gender_params,
                    invoke = invoke_predict_gender sample_load exact_builtins \<rparr>"
    using sample_registry_predict_gender by simp
  have i: "invoke \<lparr> tool_doc = Some ''Playful gender prediction (not medical).'',
                    parameters = predict_gender_params,
                    invoke = invoke_predict_gender sample_load exact_builtins \<rparr>
             (arguments_or_empty ?req) = Inr (Envelope \<lparr> result_fields = v, underscore_meta = None \<rparr>)"
    using v(1) by (simp add: arguments_or_empty_def sample_predict_gender_call returned_def)
  show ?thesis
    using returned_fields_are_the_response [OF r i, of sample_load] v(2)
    by (simp add: envelope_of_def)
qed

text \<open>
  C9, amended. A CallTool to \<^verbatim>\<open>predict_gender\<close> whose due date is a string of which
  the part after the last hyphen is not accepted by \<^verbatim>\<open>int\<close> returns, without raising,
  the handler's ordinary envelope: \<^verbatim>\<open>isError\<close> is false, the prediction is
  \<^verbatim>\<open>unknown\<close>, the text says so, and the invocation labels of the gender widget are
  attached.
\<close>

theorem unparsable_due_date_gives_unknown:
  assumes name: "req_name req = ''predict_gender''"
    and args: "req_arguments req = Some args"
    and keys: "set (map fst args) \<subseteq> {''due_date'', ''conception_date''}"
    and due: "map_of args ''due_date'' = Some (PStr d)"
    and unparsable: "int_of_str py (last (py_split CHR ''-'' d)) = None"
  shows "\<exists>e. call_tool_request load (TOOL_FUNCTIONS load py K other) req = Inr (CallToolServerResult e)
           \<and> isError e = False
           \<and> content e = [\<lparr> tc_type = ''text'', tc_text = ''Playful prediction: unknown (not medical).'' \<rparr>]
           \<and> structuredContent e = Some (PDict
                [ (''text'', PStr ''Playful prediction: unknown (not medical).''),
                  (''backend'', PDict [ (''prediction'', PStr ''unknown''),
                                        (''due_date'', PStr d),
                                        (''conception_date'', dict_get args ''conception_date'') ]),
                  (''widget'', PDict [ (''widget_type'', PStr ''gender_predictor''),
                                       (''prediction'', PStr ''unknown'') ]) ])
           \<and> result_meta e = Some [ (''openai/toolInvocation/invoking'', PStr ''Predicting gender''),
                                    (''openai/toolInvocation/invoked'', PStr ''Prediction complete'') ]"
proof -
  have p: "gender_prediction py (PStr d) = ''unknown''"
    using unparsable py_split_nonempty [of "CHR ''-''" d]
    by (simp add: gender_prediction_def parse_day_def py_last_def)
  have i: "invoke_predict_gender load py args =
           returned (predict_gender load py (PStr d) (dict_get args ''conception_date''))"
    using bind_predict_gender [OF keys] due by (simp add: invoke_predict_gender_def dict_get_def)
  let ?v = "\<lparr> content = [\<lparr> tc_type = ''text'',
                             tc_text = ''Playful prediction: unknown (not medical).'' \<rparr>],
              structuredContent = Some (PDict
                [ (''text'', PStr ''Playful prediction: unknown (not medical).''),
                  (''backend'', PDict [ (''prediction'', PStr ''unknown''),
                                        (''due_date'', PStr d),
                                        (''conception_date'', dict_get args ''conception_date'') ]),
                  (''widget'', PDict [ (''widget_type'', PStr ''gender_predictor''),
                                       (''prediction'', PStr ''unknown'') ]) ]),
              isError = False,
              result_meta = Some [ (''openai/toolInvocation/invoking'', PStr ''Predicting gender''),
                                   (''openai/toolInvocation/invoked'', PStr ''Prediction complete'') ] \<rparr>"
  have v: "predict_gender load py (PStr d) (dict_get args ''conception_date'') = Inr ?v"
    by (simp add: predict_gender_def by_id_gender p gender_text_def text_content_def
        gender_widget_labels Let_def)
  have r: "registry_get (TOOL_FUNCTIONS load py K other) (req_name req) =
             Some \<lparr> tool_doc = Some ''Playful gender prediction (not medical).'',
                    parameters = predict_gender_params,
                    invoke = invoke_predict_gender load py \<rparr>"
    using name registry_predict_gender [of load py K other] by simp
  have c: "invoke \<lparr> tool_doc = Some ''Playful gender prediction (not medical).'',
                    parameters = predict_gender_params,
                    invoke = invoke_predict_gender load py \<rparr>
             (arguments_or_empty req) = Inr (Envelope \<lparr> result_fields = ?v, underscore_meta = None \<rparr>)"
    using args i v by (simp add: arguments_or_empty_def returned_def)
  show ?thesis
    using returned_fields_are_the_response [OF r c, of load] by simp
qed

theorem unparsable_due_date_gives_unknown_witness:
  "\<exists>e. call_tool_request sample_load sample_registry
          \<lparr> req_name = ''predict_gender'',
            req_arguments = Some [(''due_date'', PStr ''not-a-date'')] \<rparr> = Inr (CallToolServerResult e)
      \<and> isError e = False
      \<and> content e = [\<lparr> tc_type = ''text'', tc_text = ''Playful prediction: unknown (not medical).'' \<rparr>]"
proof -
  have u: "int_of_str exact_builtins (last (py_split CHR ''-'' ''not-a-date'')) = None"
    by (simp add: exact_builtins_def int_ascii_def ascii_strip_def ascii_isspace_def is_digit_def)
  from unparsable_due_date_gives_unknown
         [of "\<lparr> req_name = ''predict_gender'', req_arguments = Some [(''due_date'', PStr ''not-a-date'')] \<rparr>"
             "[(''due_date'', PStr ''not-a-date'')]" "''not-a-date''" exact_builtins
             sample_load sample_K sample_other]
       u
  show ?thesis by (auto simp add: sample_registry_def)
qed

section \<open>Size calculator: bands and output\<close>

text \<open>The chain of branches picks the first band of the list that contains the weight.\<close>

lemma size_band_first_match: "size_band w = first_matching_band w"
  by (simp add: size_band_def first_matching_band_def size_bands_def in_band_def)

text \<open>
  C5, as the code has it. For \<^verbatim>\<open>weight_lb=9\<close> the recommended size is the label
  \<^verbatim>\<open>N (Newborn)\<close>, not \<^verbatim>\<open>N\<close>.
\<close>

theorem size_label_of_first_band_is_not_N:
  "structured (diaper_size_calc sample_load exact_builtins PNone (PInt 9))
     [''backend'', ''recommended_size''] = PStr ''N (Newborn)''
   \<and> structured (diaper_size_calc sample_load exact_builtins PNone (PInt 9))
     [''backend'', ''recommended_size''] \<noteq> PStr ''N''"
  by (simp add: structured_def diaper_size_calc_def by_id_size_calc pounds_def py_float_def
      size_backend_def size_band_def)

text \<open>
  C5, amended. With neither weight the calculator returns an envelope with
  \<^verbatim>\<open>isError\<close> set. With kilograms only, the result is the one for the pound weight
  obtained as the float product of the kilograms and the literal 2.2046226218. With a
  pound weight \<open>w\<close>, the result is not an error and its backend (repeated as the widget
  data) holds \<^verbatim>\<open>round(w, 2)\<close>, the size label and the range description of the first
  band, in the listed order, that contains \<open>w\<close> (size 6 when none does), and the fixed
  advice. The label of the first band is \<^verbatim>\<open>N (Newborn)\<close>: 9 pounds give
  \<^verbatim>\<open>N (Newborn)\<close> and 13 pounds give \<^verbatim>\<open>1\<close>.
\<close>

theorem size_calculator_contract:
  "diaper_size_calc load py PNone PNone =
     Inr \<lparr> content = [\<lparr> tc_type = ''text'', tc_text = ''Please provide weight_kg or weight_lb.'' \<rparr>],
           structuredContent = Some (PDict
             [ (''text'', PStr ''Please provide weight_kg or weight_lb.''),
               (''error'', PStr ''Please provide weight_kg or weight_lb.'') ]),
           isError = True,
           result_meta = Some [ (''openai/toolInvocation/invoking'', PStr ''Calculating diaper size''),
                                (''openai/toolInvocation/invoked'', PStr ''Size recommendation ready'') ] \<rparr>
   \<and> (weight_kg \<noteq> PNone \<and> py_float py weight_kg = Inr kg \<longrightarrow>
        diaper_size_calc load py weight_kg PNone =
        diaper_size_calc load py PNone (PFloat (fmul py kg (flit py (22046226218 / 10000000000)))))
   \<and> (weight_lb \<noteq> PNone \<and> py_float py weight_lb = Inr w \<longrightarrow>
        (\<exists>e. diaper_size_calc load py weight_kg weight_lb = Inr e
            \<and> isError e = False
            \<and> structuredContent e = Some (PDict
                [ (''text'', PStr (size_text py w)),
                  (''backend'', PDict
                     [ (''weight_lb'', PFloat (fround py w 2)),
                       (''recommended_size'', PStr (fst (first_matching_band w))),
                       (''weight_range_description'', PStr (snd (first_matching_band w))),
                       (''advice'', PStr (''If you see red marks around the legs, frequent leaks, '' @
                                          ''or difficulty closing tabs, consider sizing up.'')) ]),
                  (''widget'', PDict
                     [ (''widget_type'', PStr ''info_card''),
                       (''data'', PDict
                          [ (''weight_lb'', PFloat (fround py w 2)),
                            (''recommended_size'', PStr (fst (first_matching_band w))),
                            (''weight_range_description'', PStr (snd (first_matching_band w))),
                            (''advice'', PStr (''If you see red marks around the legs, frequent leaks, '' @
                                               ''or difficulty closing tabs, consider sizing up.'')) ]) ]) ])))
   \<and> first_matching_band 9 = (''N (Newborn)'', ''up to 10 lbs'')
   \<and> first_matching_band 13 = (''1'', ''8'' @ en_dash @ ''14 lbs'')"
proof -
  have missing: "diaper_size_calc load py PNone PNone =
     Inr \<lparr> content = [\<lparr> tc_type = ''text'', tc_text = ''Please provide weight_kg or weight_lb.'' \<rparr>],
           structuredContent = Some (PDict
             [ (''text'', PStr ''Please provide weight_kg or weight_lb.''),
               (''error'', PStr ''Please provide weight_kg or weight_lb.'') ]),
           isError = True,
           result_meta = Some [ (''openai/toolInvocation/invoking'', PStr ''Calculating diaper size''),
                                (''openai/toolInvocation/invoked'', PStr ''Size recommendation ready'') ] \<rparr>"
    by (simp add: diaper_size_calc_def by_id_size_calc widgets_def tool_invocation_meta_def
        text_content_def Let_def)
  have kilos: "weight_kg \<noteq> PNone \<and> py_float py weight_kg = Inr kg \<longrightarrow>
        diaper_size_calc load py weight_kg PNone =
        diaper_size_calc load py PNone (PFloat (fmul py kg (flit py (22046226218 / 10000000000))))"
    by (simp add: diaper_size_calc_def by_id_size_calc pounds_def py_float_def)
  have given: "weight_lb \<noteq> PNone \<and> py_float py weight_lb = Inr w \<longrightarrow>
        (\<exists>e. diaper_size_calc load py weight_kg weight_lb = Inr e
            \<and> isError e = False
            \<and> structuredContent e = Some (PDict
                [ (''text'', PStr (size_text py w)),
                  (''backend'', PDict
                     [ (''weight_lb'', PFloat (fround py w 2)),
                       (''recommended_size'', PStr (fst (first_matching_band w))),
                       (''weight_range_description'', PStr (snd (first_matching_band w))),
                       (''advice'', PStr (''If you see red marks around the legs, frequent leaks, '' @
                                          ''or difficulty closing tabs, consider sizing up.'')) ]),
                  (''widget'', PDict
                     [ (''widget_type'', PStr ''info_card''),
                       (''data'', PDict
                          [ (''weight_lb'', PFloat (fround py w 2)),
                            (''recommended_size'', PStr (fst (first_matching_band w))),
                            (''weight_range_description'', PStr (snd (first_matching_band w))),
                            (''advice'', PStr (''If you see red marks around the legs, frequent leaks, '' @
                                               ''or difficulty closing tabs, consider sizing up.'')) ]) ]) ]))"
    by (simp add: diaper_size_calc_def by_id_size_calc pounds_def size_backend_def
        size_band_first_match advice_def)
  have bands: "first_matching_band 9 = (''N (Newborn)'', ''up to 10 lbs'')"
      "first_matching_band 13 = (''1'', ''8'' @ en_dash @ ''14 lbs'')"
    by (simp_all add: first_matching_band_def size_bands_def in_band_def)
  show ?thesis
    using missing kilos given bands by (intro conjI) assumption+
qed

theorem size_calculator_contract_witness:
  "structured (diaper_size_calc sample_load exact_builtins PNone PNone) [''error''] =
     PStr ''Please provide weight_kg or weight_lb.''
   \<and> structured (diaper_size_calc sample_load exact_builtins PNone (PInt 13))
       [''backend'', ''recommended_size''] = PStr ''1''
   \<and> structured (diaper_size_calc sample_load exact_builtins PNone (PInt 13))
       [''backend'', ''weight_lb''] = PFloat 13
   \<and> diaper_size_calc sample_load exact_builtins (PInt 5) PNone =
     diaper_size_calc sample_load exact_builtins PNone (PFloat (5 * (22046226218 / 10000000000)))"
proof -
  note c = size_calculator_contract
             [where load = sample_load and py = exact_builtins and weight_kg = PNone
                and weight_lb = "PInt 13" and w = 13]
  note k = size_calculator_contract
             [where load = sample_load and py = exact_builtins and weight_kg = "PInt 5" and kg = 5]
  have f13: "PInt 13 \<noteq> PNone \<and> py_float exact_builtins (PInt 13) = Inr 13"
    by (simp add: py_float_def)
  have f5: "PInt 5 \<noteq> PNone \<and> py_float exact_builtins (PInt 5) = Inr 5"
    by (simp add: py_float_def)
  have r13: "fround exact_builtins 13 2 = 13"
    by (simp add: exact_builtins_def)
  have m5: "fmul exact_builtins 5 (flit exact_builtins (22046226218 / 10000000000)) =
            5 * (22046226218 / 10000000000)"
    by (simp add: exact_builtins_def)
  have a: "structured (diaper_size_calc sample_load exact_builtins PNone PNone) [''error''] =
             PStr ''Please provide weight_kg or weight_lb.''"
    using c [THEN conjunct1] by (simp add: structured_def)
  have b: "diaper_size_calc sample_load exact_builtins (PInt 5) PNone =
           diaper_size_calc sample_load exact_builtins PNone (PFloat (5 * (22046226218 / 10000000000)))"
    using k [THEN conjunct2, THEN conjunct1, THEN mp, OF f5] unfolding m5 .
  have band13: "first_matching_band 13 = (''1'', ''8'' @ en_dash @ ''14 lbs'')"
    using c [THEN conjunct2, THEN conjunct2, THEN conjunct2, THEN conjunct2] .
  from c [THEN conjunct2, THEN conjunct2, THEN conjunct1] f13
  obtain e where e: "diaper_size_calc sample_load exact_builtins PNone (PInt 13) = Inr e"
    and sc: "structuredContent e = Some (PDict
                [ (''text'', PStr (size_text exact_builtins 13)),
                  (''backend'', PDict
                     [ (''weight_lb'', PFloat (fround exact_builtins 13 2)),
                       (''recommended_size'', PStr (fst (first_matching_band 13))),
                       (''weight_range_description'', PStr (snd (first_matching_band 13))),
                       (''advice'', PStr (''If you see red marks around the legs, frequent leaks, '' @
                                          ''or difficulty closing tabs, consider sizing up.'')) ]),
                  (''widget'', PDict
                     [ (''widget_type'', PStr ''info_card''),
                       (''data'', PDict
                          [ (''weight_lb'', PFloat (fround exact_builtins 13 2)),
                            (''recommended_size'', PStr (fst (first_matching_band 13))),
                            (''weight_range_description'', PStr (snd (first_matching_band 13))),
                            (''advice'', PStr (''If you see red marks around the legs, frequent leaks, '' @
                                               ''or difficulty closing tabs, consider sizing up.'')) ]) ]) ])"
    by blast
  have s1: "structured (diaper_size_calc sample_load exact_builtins PNone (PInt 13))
              [''backend'', ''recommended_size''] = PStr ''1''"
    by (simp add: structured_def e sc band13)
  have s2: "structured (diaper_size_calc sample_load exact_builtins PNone (PInt 13))
              [''backend'', ''weight_lb''] = PFloat 13"
    by (simp add: structured_def e sc r13)
  show ?thesis using a s1 s2 b by (intro conjI) assumption+
qed

section \<open>Listing tools: schemas from signatures\<close>

text \<open>
  The loop over the parameters appends one property per parameter and the name of each
  parameter without default, when no name occurs twice (as in every signature).
\<close>

lemma dict_set_fresh: "k \<notin> fst ` set d \<Longrightarrow> dict_set d k v = d @ [(k, v)]"
  by (induction d) auto

lemma param_type_spec: "param_type p = spec_type (annotation p)"
  by (cases "annotation p") (simp_all add: param_type_def spec_type_def)

lemma schema_loop_append:
  assumes "distinct (map param_name ps)"
    and "set (map param_name ps) \<inter> fst ` set properties = {}"
  shows "schema_loop properties required ps =
         (properties @ map (\<lambda>p. (param_name p,
              PDict [ (''type'', PStr (spec_type (annotation p))),
                      (''description'', PStr (param_name p)) ])) ps,
          required @ map param_name (filter (\<lambda>p. \<not> has_default p) ps))"
  using assms
proof (induction ps arbitrary: properties required)
  case Nil
  then show ?case by simp
next
  case (Cons p ps)
  have fresh: "param_name p \<notin> fst ` set properties"
    using Cons.prems(2) by auto
  let ?entry = "(param_name p, PDict [ (''type'', PStr (spec_type (annotation p))),
                                       (''description'', PStr (param_name p)) ])"
  have step: "dict_set properties (param_name p)
                (PDict [ (''type'', PStr (param_type p)), (''description'', PStr (param_name p)) ]) =
              properties @ [?entry]"
    using dict_set_fresh [OF fresh] by (simp add: param_type_spec)
  have d: "distinct (map param_name ps)"
    using Cons.prems(1) by simp
  have disj: "set (map param_name ps) \<inter> fst ` set (properties @ [?entry]) = {}"
    using Cons.prems by auto
  show ?case
    using Cons.IH [OF d disj] step by simp
qed

lemma build_tool_schema_spec:
  assumes "distinct (map param_name ps)"
  shows "build_tool_schema ps = spec_schema ps"
  using schema_loop_append [OF assms, of "[]" "[]"]
  by (simp add: build_tool_schema_def spec_schema_def comp_def)

lemma title_of_returns: "\<exists>t. title_of py name doc = Inr t"
  using py_split_nonempty [of "CHR 0x0A" doc]
  by (cases "py_split (CHR 0x0A) doc") (simp_all add: title_of_def py_first_def)

lemma list_tools_loop_schemas:
  "\<exists>ts. list_tools_loop load py tools reg = Inr (tools @ ts) \<and>
        map (\<lambda>t. (tool_name t, inputSchema t)) ts =
        map (\<lambda>e. (fst e, build_tool_schema (parameters (snd e)))) (registered reg)"
proof (induction load py tools reg rule: list_tools_loop.induct)
  case (1 load py tools)
  then show ?case by (simp add: registered_def)
next
  case (2 load py tools name rest)
  then show ?case by (simp add: registered_def)
next
  case (3 load py tools name f rest)
  obtain t where t: "title_of py name (doc_of name f) = Inr t"
    using title_of_returns by blast
  obtain w where w: "bound_widget load name = Some w"
    using bound_widget_in_catalog by blast
  from 3 [OF t w] obtain ts where
    ts: "list_tools_loop load py (tools @ [describe_tool name f t w]) rest =
           Inr ((tools @ [describe_tool name f t w]) @ ts)"
        "map (\<lambda>t. (tool_name t, inputSchema t)) ts =
         map (\<lambda>e. (fst e, build_tool_schema (parameters (snd e)))) (registered rest)"
    by blast
  have "list_tools_loop load py tools ((name, Some f) # rest) =
          Inr (tools @ (describe_tool name f t w # ts))"
    using t w ts(1) by simp
  moreover have "map (\<lambda>t. (tool_name t, inputSchema t)) (describe_tool name f t w # ts) =
        map (\<lambda>e. (fst e, build_tool_schema (parameters (snd e)))) (registered ((name, Some f) # rest))"
    using ts(2) by (simp add: registered_def describe_tool_def)
  ultimately show ?case by blast
qed

text \<open>
  C8. \<^verbatim>\<open>_list_tools\<close> returns one tool per registered function, in registry order,
  and the input schema of each is the schema the specification describes for the
  signature of its handler: one property per parameter, of type \<^verbatim>\<open>number\<close> if the
  annotation string contains \<^verbatim>\<open>int\<close> or \<^verbatim>\<open>float\<close>, else \<^verbatim>\<open>boolean\<close> if it
  contains \<^verbatim>\<open>bool\<close>, else \<^verbatim>\<open>string\<close>, and the required list holding the
  parameters without default.
\<close>

theorem listed_schema_follows_signature:
  assumes "list_all distinct_params (registered reg)"
  shows "\<exists>tools. list_tools load py reg = Inr tools \<and>
           map (\<lambda>t. (tool_name t, inputSchema t)) tools =
           map (\<lambda>e. (fst e, spec_schema (parameters (snd e)))) (registered reg)"
proof -
  obtain ts where ts: "list_tools_loop load py [] reg = Inr ([] @ ts)"
      "map (\<lambda>t. (tool_name t, inputSchema t)) ts =
       map (\<lambda>e. (fst e, build_tool_schema (parameters (snd e)))) (registered reg)"
    using list_tools_loop_schemas by blast
  have "map (\<lambda>e. (fst e, build_tool_schema (parameters (snd e)))) (registered reg) =
        map (\<lambda>e. (fst e, spec_schema (parameters (snd e)))) (registered reg)"
    using assms by (auto simp add: list_all_iff distinct_params_def build_tool_schema_spec)
  then show ?thesis using ts by (simp add: list_tools_def)
qed

lemma sample_registry_distinct_params: "list_all distinct_params (registered sample_registry)"
  by (simp add: registered_def sample_registry_def TOOL_FUNCTIONS_def distinct_params_def
      get_faq_params_def get_item_by_id_params_def diaper_size_calc_params_def map_widget_params_def
      suggest_names_params_def predict_gender_params_def)

theorem listed_schema_follows_signature_witness:
  "list_all distinct_params (registered sample_registry) \<and>
   (\<exists>tools. list_tools sample_load exact_builtins sample_registry = Inr tools \<and>
      map (\<lambda>t. (tool_name t, inputSchema t)) tools =
      [ (''get_faq'', spec_schema get_faq_params),
        (''list_faqs'', spec_schema []),
        (''get_item_by_id'', spec_schema get_item_by_id_params),
        (''diaper_size_calc'', spec_schema diaper_size_calc_params),
        (''map_widget'', spec_schema map_widget_params),
        (''coupons'', spec_schema []),
        (''suggest_names'', spec_schema suggest_names_params),
        (''predict_gender'', spec_schema predict_gender_params) ]) \<and>
   spec_schema map_widget_params =
     PDict [ (''type'', PStr ''object''),
             (''properties'', PDict
                [ (''zip_code'', PDict [(''type'', PStr ''string''), (''description'', PStr ''zip_code'')]),
                  (''location'', PDict [(''type'', PStr ''string''), (''description'', PStr ''location'')]),
                  (''limit'', PDict [(''type'', PStr ''number''), (''description'', PStr ''limit'')]) ]),
             (''required'', PList []),
             (''additionalProperties'', PBool False) ] \<and>
   spec_schema get_faq_params =
     PDict [ (''type'', PStr ''object''),
             (''properties'', PDict
                [ (''query'', PDict [(''type'', PStr ''string''), (''description'', PStr ''query'')]) ]),
             (''required'', PList [PStr ''query'']),
             (''additionalProperties'', PBool False) ] \<and>
   spec_schema diaper_size_calc_params =
     PDict [ (''type'', PStr ''object''),
             (''properties'', PDict
                [ (''weight_kg'', PDict [(''type'', PStr ''number''), (''description'', PStr ''weight_kg'')]),
                  (''weight_lb'', PDict [(''type'', PStr ''number''), (''description'', PStr ''weight_lb'')]) ]),
             (''required'', PList []),
             (''additionalProperties'', PBool False) ]"
proof -
  have r: "map (\<lambda>e. (fst e, spec_schema (parameters (snd e)))) (registered sample_registry) =
      [ (''get_faq'', spec_schema get_faq_params),
        (''list_faqs'', spec_schema []),
        (''get_item_by_id'', spec_schema get_item_by_id_params),
        (''diaper_size_calc'', spec_schema diaper_size_calc_params),
        (''map_widget'', spec_schema map_widget_params),
        (''coupons'', spec_schema []),
        (''suggest_names'', spec_schema suggest_names_params),
        (''predict_gender'', spec_schema predict_gender_params) ]"
    by (simp add: registered_def sample_registry_def TOOL_FUNCTIONS_def)
  have l: "\<exists>tools. list_tools sample_load exact_builtins sample_registry = Inr tools \<and>
      map (\<lambda>t. (tool_name t, inputSchema t)) tools =
      [ (''get_faq'', spec_schema get_faq_params),
        (''list_faqs'', spec_schema []),
        (''get_item_by_id'', spec_schema get_item_by_id_params),
        (''diaper_size_calc'', spec_schema diaper_size_calc_params),
        (''map_widget'', spec_schema map_widget_params),
        (''coupons'', spec_schema []),
        (''suggest_names'', spec_schema suggest_names_params),
        (''predict_gender'', spec_schema predict_gender_params) ]"
    using listed_schema_follows_signature
            [OF sample_registry_distinct_params, of sample_load exact_builtins]
    unfolding r .
  have m: "spec_schema map_widget_params =
     PDict [ (''type'', PStr ''object''),
             (''properties'', PDict
                [ (''zip_code'', PDict [(''type'', PStr ''string''), (''description'', PStr ''zip_code'')]),
                  (''location'', PDict [(''type'', PStr ''string''), (''description'', PStr ''location'')]),
                  (''limit'', PDict [(''type'', PStr ''number''), (''description'', PStr ''limit'')]) ]),
             (''required'', PList []),
             (''additionalProperties'', PBool False) ]"
    by (simp add: spec_schema_def map_widget_params_def spec_type_def)
  have g: "spec_schema get_faq_params =
     PDict [ (''type'', PStr ''object''),
             (''properties'', PDict
                [ (''query'', PDict [(''type'', PStr ''string''), (''description'', PStr ''query'')]) ]),
             (''required'', PList [PStr ''query'']),
             (''additionalProperties'', PBool False) ]"
    by (simp add: spec_schema_def get_faq_params_def spec_type_def)
  have d: "spec_schema diaper_size_calc_params =
     PDict [ (''type'', PStr ''object''),
             (''properties'', PDict
                [ (''weight_kg'', PDict [(''type'', PStr ''number''), (''description'', PStr ''weight_kg'')]),
                  (''weight_lb'', PDict [(''type'', PStr ''number''), (''description'', PStr ''weight_lb'')]) ]),
             (''required'', PList []),
             (''additionalProperties'', PBool False) ]"
    by (simp add: spec_schema_def diaper_size_calc_params_def spec_type_def)
  show ?thesis
    using sample_registry_distinct_params l m g d by (intro conjI) assumption+
qed

section \<open>Keyword search: the code against the specification\<close>

subsection \<open>The loops compute the specified score\<close>

lemma words_loop_count:
  "words_loop ans score ws = score + int (length (filter (\<lambda>w. w \<noteq> [] \<and> py_in w ans) ws))"
  by (induction ws arbitrary: score) auto

lemma words_loop_tokens:
  "words_loop ans score (str_split py q) =
   score + int (length (filter (\<lambda>w. py_in w ans) (tokens py q)))"
  by (simp add: words_loop_count tokens_def)

lemma tags_loop_count:
  assumes "list_all is_PStr tags"
  shows "tags_loop py q score tags =
         Inr (score + 3 * int (length (filter (\<lambda>t. py_in (str_lower py t) q) (map the_str tags))))"
  using assms
proof (induction tags arbitrary: score)
  case Nil
  then show ?case by simp
next
  case (Cons tag tags)
  then obtain t where t: "tag = PStr t"
    by (cases tag) (simp_all add: is_PStr_def)
  show ?case
    using Cons by (simp add: t method_lower_def the_str_def)
qed

lemma lower_of_text_field:
  assumes "is_text (map_of r k)"
  shows "method_lower py (dict_get_default r k (PStr [])) = Inr (field_lower py r k)"
proof (cases "map_of r k")
  case None
  then show ?thesis
    by (simp add: dict_get_default_def field_lower_def method_lower_def)
next
  case (Some v)
  with assms obtain s where "v = PStr s"
    by (cases v) (simp_all add: is_text_def)
  with Some show ?thesis
    by (simp add: dict_get_default_def field_lower_def method_lower_def)
qed

lemma tags_of_wf_record:
  assumes "wf_record r"
  shows "\<exists>ts. py_iter py (dict_get_default r ''tags'' (PList [])) = Inr ts \<and> list_all is_PStr ts \<and>
              record_tags r = map the_str ts"
proof (cases "map_of r ''tags''")
  case None
  then show ?thesis
    by (simp add: dict_get_default_def py_iter_def record_tags_def)
next
  case (Some v)
  with assms obtain ts where "v = PList ts" "list_all is_PStr ts"
    by (cases v) (simp_all add: wf_record_def)
  with Some show ?thesis
    by (simp add: dict_get_default_def py_iter_def record_tags_def)
qed

lemma item_score_spec:
  assumes "wf_record r"
  shows "item_score py q r = Inr (spec_score py q r)"
proof -
  obtain ts where ts: "py_iter py (dict_get_default r ''tags'' (PList [])) = Inr ts"
      "list_all is_PStr ts" "record_tags r = map the_str ts"
    using tags_of_wf_record [OF assms] by blast
  have t: "method_lower py (dict_get_default r ''title'' (PStr [])) = Inr (field_lower py r ''title'')"
    and qu: "method_lower py (dict_get_default r ''question'' (PStr [])) =
             Inr (field_lower py r ''question'')"
    and a: "method_lower py (dict_get_default r ''answer'' (PStr [])) = Inr (field_lower py r ''answer'')"
    using assms by (simp_all add: wf_record_def lower_of_text_field)
  show ?thesis
    by (simp add: item_score_def t qu a ts(1) tags_loop_count [OF ts(2)] ts(3) words_loop_tokens
        spec_score_def)
qed

lemma items_loop_spec:
  assumes "list_all wf_record K"
  shows "items_loop py q hits K =
         Inr (hits @ map (\<lambda>r. (spec_score py q r, r)) (filter (\<lambda>r. 0 < spec_score py q r) K))"
  using assms
proof (induction K arbitrary: hits)
  case Nil
  then show ?case by simp
next
  case (Cons r K)
  then show ?case by (simp add: item_score_spec)
qed

subsection \<open>The sorted hits are the specified ranking\<close>

lemma insort_key_scored:
  "insort_key (\<lambda>h. - fst h) (f x, x) (map (\<lambda>r. (f r, r)) ys) =
   map (\<lambda>r. (f r, r)) (insort_key (\<lambda>r. - f r) x ys)"
  by (induction ys) simp_all

lemma sort_key_scored:
  "sort_key (\<lambda>h. - fst h) (map (\<lambda>r. (f r, r)) xs) =
   map (\<lambda>r. (f r, r)) (sort_key (\<lambda>r. - f r) xs)"
  by (induction xs) (simp_all add: insort_key_scored)

lemma sorted_hits_are_ranked:
  "map snd (sort_hits (map (\<lambda>r. (spec_score py q r, r)) (filter (\<lambda>r. 0 < spec_score py q r) K))) =
   spec_ranked py q K"
  by (simp add: sort_hits_def sort_key_scored spec_ranked_def comp_def)

lemma spec_ranked_highest_first:
  "sorted_wrt (\<lambda>a b. spec_score py q b \<le> spec_score py q a) (spec_ranked py q K)"
proof -
  have "sorted (map (\<lambda>r. - spec_score py q r) (spec_ranked py q K))"
    unfolding spec_ranked_def by (rule sorted_sort_key)
  then show ?thesis by (simp add: sorted_map)
qed

lemma spec_ranked_stable:
  "filter (\<lambda>r. spec_score py q r = k) (spec_ranked py q K) =
   filter (\<lambda>r. spec_score py q r = k) (filter (\<lambda>r. 0 < spec_score py q r) K)"
  using sort_key_stable [of "\<lambda>r. - spec_score py q r" "- k" "filter (\<lambda>r. 0 < spec_score py q r) K"]
  by (simp add: spec_ranked_def)

text \<open>The search returns the first \<open>top_n\<close> entries of the specified ranking.\<close>

lemma keyword_search_spec:
  assumes "list_all wf_record K" and "0 \<le> top_n"
  shows "keyword_search py K query top_n =
         Inr (take (nat top_n) (spec_ranked py (str_lower py query) K))"
  using assms(2)
  by (simp add: keyword_search_def items_loop_spec [OF assms(1)] sorted_hits_are_ranked slice_to_def)

text \<open>
  C4. Whatever \<^verbatim>\<open>lower\<close> and \<^verbatim>\<open>split\<close> do: on a store of records as the data model
  describes them, and for a bound \<open>top_n\<close> that is not negative, \<^verbatim>\<open>keyword_search\<close>
  returns the first \<open>top_n\<close> entries of the specified ranking for the lowercase query:
  the specified score with its weights 5, 4, 3 per tag and 1 per token; exactly the
  records of positive score; highest score first; records of equal score in the order of
  the store.
\<close>

theorem keyword_search_ranks_as_specified:
  assumes "list_all wf_record K" and "0 \<le> top_n"
  shows "keyword_search py K query top_n =
           Inr (take (nat top_n) (spec_ranked py (str_lower py query) K))
       \<and> mset (spec_ranked py (str_lower py query) K) =
           mset (filter (\<lambda>r. 0 < spec_score py (str_lower py query) r) K)
       \<and> sorted_wrt (\<lambda>a b. spec_score py (str_lower py query) b \<le> spec_score py (str_lower py query) a)
           (spec_ranked py (str_lower py query) K)
       \<and> (\<forall>k. filter (\<lambda>r. spec_score py (str_lower py query) r = k)
                 (spec_ranked py (str_lower py query) K) =
               filter (\<lambda>r. spec_score py (str_lower py query) r = k)
                 (filter (\<lambda>r. 0 < spec_score py (str_lower py query) r) K))"
proof -
  have search: "keyword_search py K query top_n =
                Inr (take (nat top_n) (spec_ranked py (str_lower py query) K))"
    using assms by (rule keyword_search_spec)
  have members: "mset (spec_ranked py (str_lower py query) K) =
                 mset (filter (\<lambda>r. 0 < spec_score py (str_lower py query) r) K)"
    by (simp add: spec_ranked_def)
  show ?thesis
    using search members spec_ranked_highest_first spec_ranked_stable by blast
qed

lemma lower_Rash: "str_lower exact_builtins ''Rash'' = ''rash''"
  by code_simp

lemma sample_K_wf: "list_all wf_record sample_K"
  by (simp add: sample_K_def faq_1_def faq_2_def faq_3_def faq_4_def wf_record_def is_text_def
      is_PStr_def)

lemma sample_scores:
  "spec_score exact_builtins ''rash'' faq_1 = 12" "spec_score exact_builtins ''rash'' faq_2 = 1"
  "spec_score exact_builtins ''rash'' faq_3 = 0" "spec_score exact_builtins ''rash'' faq_4 = 5"
  by code_simp+

lemma sample_ranked: "spec_ranked exact_builtins ''rash'' sample_K = [faq_1, faq_4, faq_2]"
  by (simp add: spec_ranked_def sample_K_def sample_scores)

theorem keyword_search_ranks_as_specified_witness:
  "list_all wf_record sample_K \<and> (0::int) \<le> 2 \<and>
   keyword_search exact_builtins sample_K ''Rash'' 2 = Inr [faq_1, faq_4]"
proof -
  have n: "(0::int) \<le> 2" by simp
  have "keyword_search exact_builtins sample_K ''Rash'' 2 =
        Inr (take (nat 2) (spec_ranked exact_builtins (str_lower exact_builtins ''Rash'') sample_K))"
    using keyword_search_ranks_as_specified [OF sample_K_wf n, of exact_builtins "''Rash''"] by blast
  then have "keyword_search exact_builtins sample_K ''Rash'' 2 = Inr [faq_1, faq_4]"
    by (simp add: lower_Rash sample_ranked)
  then show ?thesis using sample_K_wf by simp
qed

section \<open>FAQ lookup: blank queries, ranking and fallback\<close>

lemma keyword_search_at_most_three:
  "keyword_search py K q 3 = Inr ms \<Longrightarrow> length ms \<le> 3"
  by (auto simp add: keyword_search_def slice_to_def Let_def split: sum.splits)

text \<open>
  C7. Whatever \<^verbatim>\<open>strip\<close> does: for a query string that is empty once stripped (empty
  or all whitespace), \<^verbatim>\<open>get_faq\<close> returns the same envelope whatever the knowledge
  store holds: the text \<^verbatim>\<open>Query is required\<close>, no results and no cards. For any
  other query string it returns at most three matches: those of the keyword search for the
  stripped query with bound 3 when the search finds some, otherwise (nothing found, or the
  search raised) the first three records of the store. Each match appears among the
  results with its id, title, answer, source URL, type and tags, and among the cards with
  its title, its answer as text, and its id and source URL.
\<close>

theorem faq_lookup_contract:
  "(str_strip py s = [] \<longrightarrow>
      get_faq load py K (PStr s) =
        Inr \<lparr> content = [\<lparr> tc_type = ''text'', tc_text = ''Query is required'' \<rparr>],
              structuredContent = Some (PDict
                [ (''text'', PStr ''Query is required''),
                  (''results'', PList []),
                  (''widget'', PDict [ (''widget_type'', PStr ''cards''), (''cards'', PList []) ]) ]),
              isError = False,
              result_meta = Some [ (''openai/toolInvocation/invoking'', PStr ''Searching FAQs''),
                                   (''openai/toolInvocation/invoked'', PStr ''Found FAQ results'') ] \<rparr>)
   \<and> (str_strip py s \<noteq> [] \<longrightarrow>
      (\<exists>e matches.
          get_faq load py K (PStr s) = Inr e
        \<and> matches = (case keyword_search py K (str_strip py s) 3 of
                       Inr (m # ms) \<Rightarrow> m # ms
                     | _ \<Rightarrow> take 3 K)
        \<and> length matches \<le> 3
        \<and> isError e = False
        \<and> structured (Inr e) [''results''] =
            PList (map (\<lambda>m. PDict [ (''id'', dict_get m ''id''),
                                    (''title'', dict_get m ''title''),
                                    (''answer'', dict_get m ''answer''),
                                    (''source_url'', dict_get m ''source_url''),
                                    (''type'', dict_get m ''type''),
                                    (''tags'', dict_get_default m ''tags'' (PList [])) ]) matches)
        \<and> structured (Inr e) [''widget'', ''cards''] =
            PList (map (\<lambda>m. PDict [ (''type'', PStr ''card''),
                                    (''title'', dict_get m ''title''),
                                    (''text'', dict_get m ''answer''),
                                    (''meta'', PDict [ (''id'', dict_get m ''id''),
                                                       (''source_url'', dict_get m ''source_url'') ]) ]) matches)
        \<and> result_meta e = Some [ (''openai/toolInvocation/invoking'', PStr ''Searching FAQs''),
                                 (''openai/toolInvocation/invoked'', PStr ''Found FAQ results'') ]))"
proof (intro conjI impI)
  assume blank: "str_strip py s = []"
  then show "get_faq load py K (PStr s) =
        Inr \<lparr> content = [\<lparr> tc_type = ''text'', tc_text = ''Query is required'' \<rparr>],
              structuredContent = Some (PDict
                [ (''text'', PStr ''Query is required''),
                  (''results'', PList []),
                  (''widget'', PDict [ (''widget_type'', PStr ''cards''), (''cards'', PList []) ]) ]),
              isError = False,
              result_meta = Some [ (''openai/toolInvocation/invoking'', PStr ''Searching FAQs''),
                                   (''openai/toolInvocation/invoked'', PStr ''Found FAQ results'') ] \<rparr>"
    by (cases "s = []")
       (simp_all add: get_faq_def by_id_cards py_truthy_def faq_envelope_def text_content_def
          cards_widget_labels)
next
  assume q: "str_strip py s \<noteq> []"
  let ?matches = "(case keyword_search py K (str_strip py s) 3 of
                       Inr (m # ms) \<Rightarrow> m # ms
                     | _ \<Rightarrow> take 3 K)"
  have len: "length ?matches \<le> 3"
    using keyword_search_at_most_three [of py K "str_strip py s"]
    by (auto split: sum.splits list.splits)
  have m: "(let found = (case keyword_search py K (str_strip py s) 3 of Inl e \<Rightarrow> [] | Inr ms \<Rightarrow> ms)
            in if found = [] then slice_to K 3 else found) = ?matches"
    by (auto simp add: slice_to_def Let_def split: sum.splits list.splits)
  obtain summary where
    g: "get_faq load py K (PStr s) =
          Inr (faq_envelope (widgets load ! 0) summary (map faq_result ?matches) (map faq_card ?matches))"
    using q m
    by (cases "s = []") (simp_all add: get_faq_def by_id_cards py_truthy_def Let_def)
  have res: "map faq_result ?matches = map (\<lambda>m. PDict [ (''id'', dict_get m ''id''),
                                    (''title'', dict_get m ''title''),
                                    (''answer'', dict_get m ''answer''),
                                    (''source_url'', dict_get m ''source_url''),
                                    (''type'', dict_get m ''type''),
                                    (''tags'', dict_get_default m ''tags'' (PList [])) ]) ?matches"
    by (simp add: faq_result_def)
  have crd: "map faq_card ?matches = map (\<lambda>m. PDict [ (''type'', PStr ''card''),
                                    (''title'', dict_get m ''title''),
                                    (''text'', dict_get m ''answer''),
                                    (''meta'', PDict [ (''id'', dict_get m ''id''),
                                                       (''source_url'', dict_get m ''source_url'') ]) ]) ?matches"
    by (simp add: faq_card_def)
  let ?e = "faq_envelope (widgets load ! 0) summary (map faq_result ?matches) (map faq_card ?matches)"
  have "get_faq load py K (PStr s) = Inr ?e
        \<and> ?matches = ?matches
        \<and> length ?matches \<le> 3
        \<and> isError ?e = False
        \<and> structured (Inr ?e) [''results''] =
            PList (map (\<lambda>m. PDict [ (''id'', dict_get m ''id''),
                                    (''title'', dict_get m ''title''),
                                    (''answer'', dict_get m ''answer''),
                                    (''source_url'', dict_get m ''source_url''),
                                    (''type'', dict_get m ''type''),
                                    (''tags'', dict_get_default m ''tags'' (PList [])) ]) ?matches)
        \<and> structured (Inr ?e) [''widget'', ''cards''] =
            PList (map (\<lambda>m. PDict [ (''type'', PStr ''card''),
                                    (''title'', dict_get m ''title''),
                                    (''text'', dict_get m ''answer''),
                                    (''meta'', PDict [ (''id'', dict_get m ''id''),
                                                       (''source_url'', dict_get m ''source_url'') ]) ]) ?matches)
        \<and> result_meta ?e = Some [ (''openai/toolInvocation/invoking'', PStr ''Searching FAQs''),
                                 (''openai/toolInvocation/invoked'', PStr ''Found FAQ results'') ]"
    using g len
    by (simp add: faq_envelope_def structured_def cards_widget_labels faq_result_def faq_card_def)
  then show "\<exists>e matches.
          get_faq load py K (PStr s) = Inr e
        \<and> matches = (case keyword_search py K (str_strip py s) 3 of
                       Inr (m # ms) \<Rightarrow> m # ms
                     | _ \<Rightarrow> take 3 K)
        \<and> length matches \<le> 3
        \<and> isError e = False
        \<and> structured (Inr e) [''results''] =
            PList (map (\<lambda>m. PDict [ (''id'', dict_get m ''id''),
                                    (''title'', dict_get m ''title''),
                                    (''answer'', dict_get m ''answer''),
                                    (''source_url'', dict_get m ''source_url''),
                                    (''type'', dict_get m ''type''),
                                    (''tags'', dict_get_default m ''tags'' (PList [])) ]) matches)
        \<and> structured (Inr e) [''widget'', ''cards''] =
            PList (map (\<lambda>m. PDict [ (''type'', PStr ''card''),
                                    (''title'', dict_get m ''title''),
                                    (''text'', dict_get m ''answer''),
                                    (''meta'', PDict [ (''id'', dict_get m ''id''),
                                                       (''source_url'', dict_get m ''source_url'') ]) ]) matches)
        \<and> result_meta e = Some [ (''openai/toolInvocation/invoking'', PStr ''Searching FAQs''),
                                 (''openai/toolInvocation/invoked'', PStr ''Found FAQ results'') ]"
    by blast
qed

lemma sample_search_rash:
  "keyword_search exact_builtins sample_K ''Rash'' 3 = Inr [faq_1, faq_4, faq_2]"
  using keyword_search_spec [OF sample_K_wf, of 3 exact_builtins "''Rash''"]
  by (simp add: lower_Rash sample_ranked)

lemma sample_scores_zzz:
  "spec_score exact_builtins ''zzz'' faq_1 = 0" "spec_score exact_builtins ''zzz'' faq_2 = 0"
  "spec_score exact_builtins ''zzz'' faq_3 = 0" "spec_score exact_builtins ''zzz'' faq_4 = 0"
  by code_simp+

lemma sample_search_zzz: "keyword_search exact_builtins sample_K ''zzz'' 3 = Inr []"
proof -
  have "str_lower exact_builtins ''zzz'' = ''zzz''" by code_simp
  moreover have "spec_ranked exact_builtins ''zzz'' sample_K = []"
    by (simp add: spec_ranked_def sample_K_def sample_scores_zzz)
  ultimately show ?thesis
    using keyword_search_spec [OF sample_K_wf, of 3 exact_builtins "''zzz''"] by simp
qed

theorem faq_lookup_contract_witness:
  "structured (get_faq sample_load exact_builtins sample_K (PStr ''   '')) [''text''] =
     PStr ''Query is required''
   \<and> structured (get_faq sample_load exact_builtins sample_K (PStr ''   '')) [''results''] = PList []
   \<and> structured (get_faq sample_load exact_builtins sample_K (PStr '' Rash '')) [''results''] =
     PList
       [ PDict [ (''id'', PStr ''faq-1''), (''title'', PStr ''Diaper rash care''),
                 (''answer'', PStr ''Keep the area clean and dry and use a barrier cream.''),
                 (''source_url'', PStr ''https://example.org/rash''), (''type'', PStr ''faq''),
                 (''tags'', PList [PStr ''rash'', PStr ''skin'']) ],
         PDict [ (''id'', PStr ''faq-4''), (''title'', PStr ''Rash creams''),
                 (''answer'', PStr ''A zinc oxide cream protects the skin.''),
                 (''source_url'', PStr ''https://example.org/cream''), (''type'', PStr ''faq''),
                 (''tags'', PList [PStr ''cream'']) ],
         PDict [ (''id'', PStr ''faq-2''), (''title'', PStr ''Choosing a size''),
                 (''answer'', PStr ''Sizes follow weight; a rash at the legs can mean the size is small.''),
                 (''source_url'', PStr ''https://example.org/size''), (''type'', PStr ''faq''),
                 (''tags'', PList [PStr ''size'', PStr ''fit'']) ] ]
   \<and> structured (get_faq sample_load exact_builtins sample_K (PStr '' Rash '')) [''widget'', ''cards''] =
     PList
       [ PDict [ (''type'', PStr ''card''), (''title'', PStr ''Diaper rash care''),
                 (''text'', PStr ''Keep the area clean and dry and use a barrier cream.''),
                 (''meta'', PDict [ (''id'', PStr ''faq-1''),
                                    (''source_url'', PStr ''https://example.org/rash'') ]) ],
         PDict [ (''type'', PStr ''card''), (''title'', PStr ''Rash creams''),
                 (''text'', PStr ''A zinc oxide cream protects the skin.''),
                 (''meta'', PDict [ (''id'', PStr ''faq-4''),
                                    (''source_url'', PStr ''https://example.org/cream'') ]) ],
         PDict [ (''type'', PStr ''card''), (''title'', PStr ''Choosing a size''),
                 (''text'', PStr ''Sizes follow weight; a rash at the legs can mean the size is small.''),
                 (''meta'', PDict [ (''id'', PStr ''faq-2''),
                                    (''source_url'', PStr ''https://example.org/size'') ]) ] ]
   \<and> structured (get_faq sample_load exact_builtins sample_K (PStr ''zzz'')) [''results''] =
     PList
       [ PDict [ (''id'', PStr ''faq-1''), (''title'', PStr ''Diaper rash care''),
                 (''answer'', PStr ''Keep the area clean and dry and use a barrier cream.''),
                 (''source_url'', PStr ''https://example.org/rash''), (''type'', PStr ''faq''),
                 (''tags'', PList [PStr ''rash'', PStr ''skin'']) ],
         PDict [ (''id'', PStr ''faq-2''), (''title'', PStr ''Choosing a size''),
                 (''answer'', PStr ''Sizes follow weight; a rash at the legs can mean the size is small.''),
                 (''source_url'', PStr ''https://example.org/size''), (''type'', PStr ''faq''),
                 (''tags'', PList [PStr ''size'', PStr ''fit'']) ],
         PDict [ (''id'', PStr ''faq-3''), (''title'', PStr ''Overnight leaks''),
                 (''answer'', PStr ''Try an overnight diaper and check the fit.''),
                 (''source_url'', PStr ''https://example.org/leaks''), (''type'', PStr ''faq''),
                 (''tags'', PList [PStr ''Leaks'', PStr ''night'']) ] ]"
proof -
  have st0: "str_strip exact_builtins ''   '' = []"
    by (simp add: exact_builtins_def ascii_strip_def ascii_isspace_def)
  have a: "structured (get_faq sample_load exact_builtins sample_K (PStr ''   '')) [''text''] =
             PStr ''Query is required''"
    and b: "structured (get_faq sample_load exact_builtins sample_K (PStr ''   '')) [''results''] = PList []"
    using faq_lookup_contract [of exact_builtins "''   ''" sample_load sample_K, THEN conjunct1,
        THEN mp, OF st0]
    by (simp_all add: structured_def)
  have st1: "str_strip exact_builtins '' Rash '' = ''Rash''"
    by (simp add: exact_builtins_def ascii_strip_def ascii_isspace_def)
  have nb1: "str_strip exact_builtins '' Rash '' \<noteq> []"
    by (simp add: st1)
  have m1: "(case keyword_search exact_builtins sample_K (str_strip exact_builtins '' Rash '') 3 of
               Inr (m # ms) \<Rightarrow> m # ms | _ \<Rightarrow> take 3 sample_K) = [faq_1, faq_4, faq_2]"
    by (simp add: st1 sample_search_rash)
  from faq_lookup_contract [of exact_builtins "'' Rash ''" sample_load sample_K, THEN conjunct2,
      THEN mp, OF nb1]
  have c: "structured (get_faq sample_load exact_builtins sample_K (PStr '' Rash '')) [''results''] =
     PList
       [ PDict [ (''id'', PStr ''faq-1''), (''title'', PStr ''Diaper rash care''),
                 (''answer'', PStr ''Keep the area clean and dry and use a barrier cream.''),
                 (''source_url'', PStr ''https://example.org/rash''), (''type'', PStr ''faq''),
                 (''tags'', PList [PStr ''rash'', PStr ''skin'']) ],
         PDict [ (''id'', PStr ''faq-4''), (''title'', PStr ''Rash creams''),
                 (''answer'', PStr ''A zinc oxide cream protects the skin.''),
                 (''source_url'', PStr ''https://example.org/cream''), (''type'', PStr ''faq''),
                 (''tags'', PList [PStr ''cream'']) ],
         PDict [ (''id'', PStr ''faq-2''), (''title'', PStr ''Choosing a size''),
                 (''answer'', PStr ''Sizes follow weight; a rash at the legs can mean the size is small.''),
                 (''source_url'', PStr ''https://example.org/size''), (''type'', PStr ''faq''),
                 (''tags'', PList [PStr ''size'', PStr ''fit'']) ] ]"
    and d: "structured (get_faq sample_load exact_builtins sample_K (PStr '' Rash ''))
              [''widget'', ''cards''] =
     PList
       [ PDict [ (''type'', PStr ''card''), (''title'', PStr ''Diaper rash care''),
                 (''text'', PStr ''Keep the area clean and dry and use a barrier cream.''),
                 (''meta'', PDict [ (''id'', PStr ''faq-1''),
                                    (''source_url'', PStr ''https://example.org/rash'') ]) ],
         PDict [ (''type'', PStr ''card''), (''title'', PStr ''Rash creams''),
                 (''text'', PStr ''A zinc oxide cream protects the skin.''),
                 (''meta'', PDict [ (''id'', PStr ''faq-4''),
                                    (''source_url'', PStr ''https://example.org/cream'') ]) ],
         PDict [ (''type'', PStr ''card''), (''title'', PStr ''Choosing a size''),
                 (''text'', PStr ''Sizes follow weight; a rash at the legs can mean the size is small.''),
                 (''meta'', PDict [ (''id'', PStr ''faq-2''),
                                    (''source_url'', PStr ''https://example.org/size'') ]) ] ]"
    unfolding m1
    by (auto simp add: dict_get_def dict_get_default_def faq_1_def faq_2_def faq_4_def)
  have take_three_sample_K: "take 3 sample_K = [faq_1, faq_2, faq_3]"
    by (simp add: sample_K_def)
  have st2: "str_strip exact_builtins ''zzz'' = ''zzz''"
    by (simp add: exact_builtins_def ascii_strip_def ascii_isspace_def)
  have nb2: "str_strip exact_builtins ''zzz'' \<noteq> []"
    by (simp add: st2)
  have m2: "(case keyword_search exact_builtins sample_K (str_strip exact_builtins ''zzz'') 3 of
               Inr (m # ms) \<Rightarrow> m # ms | _ \<Rightarrow> take 3 sample_K) = [faq_1, faq_2, faq_3]"
    by (simp add: st2 sample_search_zzz take_three_sample_K)
  from faq_lookup_contract [of exact_builtins "''zzz''" sample_load sample_K, THEN conjunct2,
      THEN mp, OF nb2]
  have e: "structured (get_faq sample_load exact_builtins sample_K (PStr ''zzz'')) [''results''] =
     PList
       [ PDict [ (''id'', PStr ''faq-1''), (''title'', PStr ''Diaper rash care''),
                 (''answer'', PStr ''Keep the area clean and dry and use a barrier cream.''),
                 (''source_url'', PStr ''https://example.org/rash''), (''type'', PStr ''faq''),
                 (''tags'', PList [PStr ''rash'', PStr ''skin'']) ],
         PDict [ (''id'', PStr ''faq-2''), (''title'', PStr ''Choosing a size''),
                 (''answer'', PStr ''Sizes follow weight; a rash at the legs can mean the size is small.''),
                 (''source_url'', PStr ''https://example.org/size''), (''type'', PStr ''faq''),
                 (''tags'', PList [PStr ''size'', PStr ''fit'']) ],
         PDict [ (''id'', PStr ''faq-3''), (''title'', PStr ''Overnight leaks''),
                 (''answer'', PStr ''Try an overnight diaper and check the fit.''),
                 (''source_url'', PStr ''https://example.org/leaks''), (''type'', PStr ''faq''),
                 (''tags'', PList [PStr ''Leaks'', PStr ''night'']) ] ]"
    unfolding m2
    by (auto simp add: dict_get_def dict_get_default_def faq_1_def faq_2_def faq_3_def)
  show ?thesis using a b c d e by (intro conjI) assumption+
qed

end
